theory Spec2Isabelle
  imports Complex_Main "HOL-Library.AList"
begin

section \<open>Permission model (src/models/user.py)\<close>

text \<open>
  The four tables the access control evaluator reads. Each row keeps the columns the
  evaluator touches; a table is the list of its rows, in the order the database returns
  them.
\<close>

record Role =
  Role_id :: string
  Role_name :: string

record Permission =
  Permission_id :: string
  Permission_resource :: string
  Permission_action :: string

record RolePermission =
  RolePermission_role_id :: string
  RolePermission_permission_id :: string

record UserRole =
  UserRole_user_id :: string
  UserRole_role_id :: string
  UserRole_organization_id :: "string option"

record database =
  roles :: "Role list"
  permissions :: "Permission list"
  role_permissions :: "RolePermission list"
  user_roles :: "UserRole list"

text \<open>The queries of \<open>permission_required\<close>, one definition per query expression.\<close>

definition UserRole_filter_by_user :: "database \<Rightarrow> string \<Rightarrow> UserRole list" where
  "UserRole_filter_by_user db user_id =
     filter (\<lambda>ur. UserRole_user_id ur = user_id) (user_roles db)"

definition Role_query_get :: "database \<Rightarrow> string \<Rightarrow> Role option" where
  "Role_query_get db rid = find (\<lambda>r. Role_id r = rid) (roles db)"

definition Permission_first :: "database \<Rightarrow> string \<Rightarrow> string \<Rightarrow> Permission option" where
  "Permission_first db resource action =
     find (\<lambda>p. Permission_resource p = resource \<and> Permission_action p = action)
       (permissions db)"

definition RolePermission_first :: "database \<Rightarrow> string \<Rightarrow> string \<Rightarrow> RolePermission option" where
  "RolePermission_first db rid pid =
     find (\<lambda>rp. RolePermission_role_id rp = rid \<and> RolePermission_permission_id rp = pid)
       (role_permissions db)"

section \<open>Access control evaluator (src/utils/auth.py)\<close>

text \<open>
  What the decorated view returns: either the wrapped handler was called and returned
  \<open>r\<close>, or the decorator answered itself with \<open>jsonify({'message': m}), status\<close>.
\<close>

datatype 'r reply = Called 'r | Json string nat

text \<open>
  \<open>return f(*args, **kwargs)\<close> stands inside the \<open>try\<close> block: a handler that raises
  (\<open>None\<close>) is answered by the \<open>except\<close> branch.
\<close>

definition invoke :: "'r option \<Rightarrow> 'r reply" where
  "invoke f = (case f of Some r \<Rightarrow> Called r
                | None \<Rightarrow> Json ''Token is invalid or expired'' 401)"

text \<open>The first loop: does some role of the user carry the reserved name?\<close>

fun super_admin_loop :: "database \<Rightarrow> UserRole list \<Rightarrow> bool" where
  "super_admin_loop db [] = False"
| "super_admin_loop db (user_role # rest) =
     (case Role_query_get db (UserRole_role_id user_role) of
        Some role \<Rightarrow>
          if Role_name role = ''Super Admin'' then True else super_admin_loop db rest
      | None \<Rightarrow> super_admin_loop db rest)"

text \<open>The second loop: does some role of the user have an edge to the permission?\<close>

fun role_permission_loop :: "database \<Rightarrow> Permission \<Rightarrow> UserRole list \<Rightarrow> bool" where
  "role_permission_loop db permission [] = False"
| "role_permission_loop db permission (user_role # rest) =
     (case RolePermission_first db (UserRole_role_id user_role) (Permission_id permission) of
        Some role_permission \<Rightarrow> True
      | None \<Rightarrow> role_permission_loop db permission rest)"

text \<open>
  \<open>permission_required(resource, action)(f)\<close>. The credential is the outcome of
  \<open>verify_jwt_in_request\<close> and \<open>get_jwt_identity\<close>: \<open>None\<close> when verification raises,
  the user id otherwise.
\<close>

definition permission_required ::
  "string \<Rightarrow> string \<Rightarrow> 'r option \<Rightarrow> database \<Rightarrow> string option \<Rightarrow> 'r reply" where
  "permission_required resource action f db credential =
     (case credential of
        None \<Rightarrow> Json ''Token is invalid or expired'' 401
      | Some user_id \<Rightarrow>
          let urs = UserRole_filter_by_user db user_id in
          if super_admin_loop db urs then invoke f
          else
            (case Permission_first db resource action of
               None \<Rightarrow> Json ''Permission not found'' 403
             | Some permission \<Rightarrow>
                 if role_permission_loop db permission urs then invoke f
                 else Json ''Permission denied'' 403))"

text \<open>
  A user holds a role name when one of the user's UserRole rows points to a Role row of
  that name. Role ids are the primary key of the roles table.
\<close>

definition holds_role :: "database \<Rightarrow> string \<Rightarrow> string \<Rightarrow> bool" where
  "holds_role db user_id rname =
     list_ex (\<lambda>ur. UserRole_user_id ur = user_id \<and>
                list_ex (\<lambda>r. Role_id r = UserRole_role_id ur \<and> Role_name r = rname) (roles db))
       (user_roles db)"

definition role_linked :: "database \<Rightarrow> string \<Rightarrow> Permission \<Rightarrow> bool" where
  "role_linked db user_id p =
     list_ex (\<lambda>ur. UserRole_user_id ur = user_id \<and>
                list_ex (\<lambda>rp. RolePermission_role_id rp = UserRole_role_id ur \<and>
                           RolePermission_permission_id rp = Permission_id p)
                  (role_permissions db))
       (user_roles db)"

definition role_keys_unique :: "database \<Rightarrow> bool" where
  "role_keys_unique db = distinct (map Role_id (roles db))"

definition uq_resource_action :: "database \<Rightarrow> bool" where
  "uq_resource_action db =
     distinct (map (\<lambda>p. (Permission_resource p, Permission_action p)) (permissions db))"

section \<open>Telemetry ingestion client (src/utils/starlink_api.py)\<close>

text \<open>JSON values as \<open>json.loads\<close> delivers them.\<close>

datatype json =
  JNull | JBool bool | JNum int | JStr string | JArr "json list" | JObj "(string \<times> json) list"

text \<open>
  The vendor's payload \<open>{data: {columnNamesByDeviceType, values}, metadata}\<close>. A key the
  code reads with \<open>.get(key, default)\<close> or tests with \<open>in\<close> may be absent (\<open>None\<close>).
\<close>

record batch_data =
  columnNamesByDeviceType :: "(string \<rightharpoonup> string list) option"
  value_rows :: "json list list option"

record telemetry_payload =
  payload_data :: "batch_data option"
  payload_metadata :: "json option"

text \<open>
  The upstream as the client sees it: what the n-th reading of \<open>time.time()\<close>, the n-th
  call of \<open>get_starlink_access_token\<close> (src/utils/auth.py: the token, or \<open>None\<close> on any
  failure) and the n-th telemetry request answer. An answer is a status code with the
  body as \<open>response.json()\<close> parses it (\<open>None\<close> when parsing raises), or no answer at
  all when \<open>requests.post\<close> raises.
\<close>

datatype http_answer = Answer nat "telemetry_payload option" | NoAnswer

record upstream =
  clock :: "nat \<Rightarrow> real"
  token_answers :: "nat \<Rightarrow> string option"
  telemetry_answers :: "nat \<Rightarrow> http_answer"

text \<open>The calls made so far, oldest first; a telemetry request is logged with its
  Authorization header and account number.\<close>

datatype upstream_call = TokenExchange | TelemetryPost string string

record world =
  clock_reads :: nat
  calls :: "upstream_call list"

definition token_exchanges :: "world \<Rightarrow> nat" where
  "token_exchanges w = length (filter (\<lambda>c. c = TokenExchange) (calls w))"

definition telemetry_posts :: "world \<Rightarrow> nat" where
  "telemetry_posts w = length (filter (\<lambda>c. c \<noteq> TokenExchange) (calls w))"

text \<open>The fields of a \<open>StarlinkAPI\<close> object; \<open>__init__\<close> sets them to \<open>None\<close> and \<open>0\<close>.\<close>

record StarlinkAPI =
  access_token :: "string option"
  token_expiry :: real

definition StarlinkAPI_init :: StarlinkAPI where
  "StarlinkAPI_init = \<lparr>access_token = None, token_expiry = 0\<rparr>"

text \<open>Python truth of a token: \<open>None\<close> and the empty string are false.\<close>

definition truthy :: "string option \<Rightarrow> bool" where
  "truthy t = (case t of None \<Rightarrow> False | Some s \<Rightarrow> s \<noteq> [])"

definition get_starlink_access_token :: "upstream \<Rightarrow> world \<Rightarrow> string option \<times> world" where
  "get_starlink_access_token up w =
     (token_answers up (token_exchanges w), w\<lparr>calls := calls w @ [TokenExchange]\<rparr>)"

text \<open>\<open>_ensure_token\<close>: \<open>False\<close> in the first component when it raises.\<close>

definition ensure_token :: "upstream \<Rightarrow> StarlinkAPI \<times> world \<Rightarrow> bool \<times> StarlinkAPI \<times> world" where
  "ensure_token up sw =
     (let self = fst sw; w = snd sw;
          current_time = clock up (clock_reads w);
          w1 = w\<lparr>clock_reads := Suc (clock_reads w)\<rparr>
      in if \<not> truthy (access_token self) \<or> current_time \<ge> token_expiry self then
           (let got = get_starlink_access_token up w1;
                self1 = self\<lparr>access_token := fst got\<rparr>
            in if truthy (access_token self1)
               then (True, self1\<lparr>token_expiry := current_time + 14 * 60\<rparr>, snd got)
               else (False, self1, snd got))
         else (True, self, w1))"

definition bearer :: "StarlinkAPI \<Rightarrow> string" where
  "bearer self = ''Bearer '' @ (case access_token self of None \<Rightarrow> ''None'' | Some t \<Rightarrow> t)"

text \<open>
  \<open>response.raise_for_status(); return response.json()\<close> inside the \<open>try\<close>: a 4xx or 5xx
  status raises, and so does a body that is not JSON; the \<open>except\<close> branch returns \<open>None\<close>.
\<close>

definition raise_for_status_json :: "nat \<Rightarrow> telemetry_payload option \<Rightarrow> telemetry_payload option" where
  "raise_for_status_json code body = (if 400 \<le> code \<and> code < 600 then None else body)"

text \<open>
  \<open>get_telemetry\<close>. It calls itself on every 401, so the nesting is bounded by the
  interpreter only: the first argument is the number of nested calls the recursion limit
  still allows. A call beyond it raises RecursionError, an \<open>Exception\<close>, which the
  enclosing \<open>except\<close> branch turns into \<open>None\<close>.
\<close>

fun get_telemetry ::
  "nat \<Rightarrow> upstream \<Rightarrow> string \<Rightarrow> StarlinkAPI \<times> world \<Rightarrow>
   telemetry_payload option \<times> StarlinkAPI \<times> world" where
  "get_telemetry 0 up account_number sw = (None, sw)"
| "get_telemetry (Suc depth) up account_number sw =
     (case ensure_token up sw of
        (False, self1, w1) \<Rightarrow> (None, self1, w1)
      | (True, self1, w1) \<Rightarrow>
          (let response = telemetry_answers up (telemetry_posts w1);
               w2 = w1\<lparr>calls := calls w1 @ [TelemetryPost (bearer self1) account_number]\<rparr>
           in case response of
                NoAnswer \<Rightarrow> (None, self1, w2)
              | Answer status_code body \<Rightarrow>
                  if status_code = 401
                  then get_telemetry depth up account_number
                         (self1\<lparr>access_token := None, token_expiry := 0\<rparr>, w2)
                  else (raise_for_status_json status_code body, self1, w2)))"

subsection \<open>Decoding a batch\<close>

datatype py_error = TypeError

text \<open>A decoded row: a Python dict, as the list of its items in insertion order.\<close>

type_synonym row_dict = "(string \<times> json) list"

record processed =
  processed_data :: "row_dict list"
  processed_metadata :: json

text \<open>\<open>data.get('columnNamesByDeviceType', {})\<close> and \<open>data.get('values', [])\<close>.\<close>

definition column_names_by_device_type :: "batch_data \<Rightarrow> (string \<rightharpoonup> string list)" where
  "column_names_by_device_type data =
     (case columnNamesByDeviceType data of None \<Rightarrow> Map.empty | Some m \<Rightarrow> m)"

definition values_of :: "batch_data \<Rightarrow> json list list" where
  "values_of data = (case value_rows data of None \<Rightarrow> [] | Some rows \<Rightarrow> rows)"

text \<open>
  \<open>column_names_by_device_type.get(device_type, [])\<close>: the keys of the dict are strings,
  so no other scalar finds an entry; a list or a dict as key raises TypeError
  (unhashable).
\<close>

definition get_column_names :: "(string \<rightharpoonup> string list) \<Rightarrow> json \<Rightarrow> py_error + string list" where
  "get_column_names cn device_type =
     (case device_type of
        JStr t \<Rightarrow> Inr (case cn t of None \<Rightarrow> [] | Some names \<Rightarrow> names)
      | JArr xs \<Rightarrow> Inl TypeError
      | JObj kvs \<Rightarrow> Inl TypeError
      | _ \<Rightarrow> Inr [])"

text \<open>
  \<open>for i, column_name in enumerate(column_names): row_dict[column_name] = row[i]\<close>,
  reached only when both lists have the same length. Assigning to a key that is already
  there replaces its value in place.
\<close>

definition make_row_dict :: "string list \<Rightarrow> json list \<Rightarrow> row_dict" where
  "make_row_dict column_names row =
     foldl (\<lambda>row_dict (column_name, v). AList.update column_name v row_dict) []
       (zip column_names row)"

text \<open>The loop over \<open>values\<close>; an exception leaves the loop and the function.\<close>

fun process_rows :: "(string \<rightharpoonup> string list) \<Rightarrow> json list list \<Rightarrow> py_error + row_dict list" where
  "process_rows cn [] = Inr []"
| "process_rows cn (row # rest) =
     (case row of
        device_type # x # xs \<Rightarrow>
          (case get_column_names cn device_type of
             Inl e \<Rightarrow> Inl e
           | Inr column_names \<Rightarrow>
               if column_names = [] \<or> length column_names \<noteq> length row
               then process_rows cn rest
               else (case process_rows cn rest of
                       Inl e \<Rightarrow> Inl e
                     | Inr processed_rest \<Rightarrow>
                         Inr (make_row_dict column_names row # processed_rest)))
      | _ \<Rightarrow> process_rows cn rest)"

text \<open>
  \<open>process_telemetry_data\<close>. The argument is \<open>None\<close> or a payload; a payload without
  the key 'data' (the empty dict among them) gives \<open>None\<close>.
\<close>

definition process_telemetry_data :: "telemetry_payload option \<Rightarrow> py_error + processed option" where
  "process_telemetry_data telemetry_data =
     (case telemetry_data of
        None \<Rightarrow> Inr None
      | Some td \<Rightarrow>
          (case payload_data td of
             None \<Rightarrow> Inr None
           | Some data \<Rightarrow>
               (let metadata = (case payload_metadata td of None \<Rightarrow> JObj [] | Some m \<Rightarrow> m)
                in case process_rows (column_names_by_device_type data) (values_of data) of
                     Inl e \<Rightarrow> Inl e
                   | Inr rows \<Rightarrow>
                       Inr (Some \<lparr>processed_data = rows, processed_metadata = metadata\<rparr>))))"

text \<open>\<open>not telemetry_data\<close> for a payload: the dict without keys.\<close>

definition payload_falsy :: "telemetry_payload \<Rightarrow> bool" where
  "payload_falsy td = (payload_data td = None \<and> payload_metadata td = None)"

text \<open>\<open>row.get('DeviceType') == t\<close>.\<close>

definition DeviceType_is :: "string \<Rightarrow> row_dict \<Rightarrow> bool" where
  "DeviceType_is t row = (map_of row ''DeviceType'' = Some (JStr t))"

text \<open>
  The common body of \<open>get_user_terminal_telemetry\<close>, \<open>get_router_telemetry\<close> and
  \<open>get_ip_allocations\<close>, which differ in the letter they filter for. None of them
  catches an exception of \<open>process_telemetry_data\<close>.
\<close>

definition get_stream ::
  "string \<Rightarrow> nat \<Rightarrow> upstream \<Rightarrow> string \<Rightarrow> StarlinkAPI \<times> world \<Rightarrow>
   (py_error + row_dict list) \<times> StarlinkAPI \<times> world" where
  "get_stream t depth up account_number sw =
     (let fetched = get_telemetry depth up account_number sw
      in case fst fetched of
           None \<Rightarrow> (Inr [], snd fetched)
         | Some telemetry_data \<Rightarrow>
             if payload_falsy telemetry_data then (Inr [], snd fetched)
             else (case process_telemetry_data (Some telemetry_data) of
                     Inl e \<Rightarrow> (Inl e, snd fetched)
                   | Inr None \<Rightarrow> (Inr [], snd fetched)
                   | Inr (Some processed_data') \<Rightarrow>
                       (Inr (filter (DeviceType_is t) (processed_data processed_data')),
                        snd fetched)))"

definition get_user_terminal_telemetry ::
  "nat \<Rightarrow> upstream \<Rightarrow> string \<Rightarrow> StarlinkAPI \<times> world \<Rightarrow>
   (py_error + row_dict list) \<times> StarlinkAPI \<times> world" where
  "get_user_terminal_telemetry = get_stream ''u''"

definition get_router_telemetry ::
  "nat \<Rightarrow> upstream \<Rightarrow> string \<Rightarrow> StarlinkAPI \<times> world \<Rightarrow>
   (py_error + row_dict list) \<times> StarlinkAPI \<times> world" where
  "get_router_telemetry = get_stream ''r''"

definition get_ip_allocations ::
  "nat \<Rightarrow> upstream \<Rightarrow> string \<Rightarrow> StarlinkAPI \<times> world \<Rightarrow>
   (py_error + row_dict list) \<times> StarlinkAPI \<times> world" where
  "get_ip_allocations = get_stream ''i''"

section \<open>Telemetry routes (src/routes/telemetry.py)\<close>

text \<open>
  \<open>success_response(data, message, status_code)\<close> and \<open>error_response(message,
  status_code)\<close> of src/utils/responses.py.
\<close>

datatype 'a http_response =
  Success_response 'a "string option" nat
| Error_response string nat

text \<open>
  The tables the telemetry routes read (src/models/device.py, src/models/telemetry.py),
  with the columns they touch. Times are \<open>datetime\<close> values, counted in microseconds;
  the six averaged columns of a user-terminal sample are nullable floats.
\<close>

record Device =
  Device_id :: string
  Device_organization_id :: string

record RouterTelemetry =
  RouterTelemetry_time :: int
  RouterTelemetry_device_id :: string
  wan_tx_bytes :: "int option"
  wan_rx_bytes :: "int option"

record UserTerminalTelemetry =
  UserTerminalTelemetry_time :: int
  UserTerminalTelemetry_device_id :: string
  downlink_throughput :: "real option"
  uplink_throughput :: "real option"
  ping_latency_ms_avg :: "real option"
  ping_drop_rate_avg :: "real option"
  obstruction_percent_time :: "real option"
  signal_quality :: "real option"

record IpAllocation =
  IpAllocation_id :: string
  IpAllocation_device_id :: string
  ipv4 :: "string option"

record telemetry_db =
  devices :: "Device list"
  user_terminal_telemetry :: "UserTerminalTelemetry list"
  router_telemetry :: "RouterTelemetry list"
  ip_allocations :: "IpAllocation list"

subsection \<open>POST /telemetry/sync\<close>

record sync_counts =
  user_terminal_count :: nat
  router_count :: nat
  ip_allocation_count :: nat

text \<open>The counting loop of \<open>sync_telemetry\<close>, an \<open>if/elif/elif\<close> per decoded row.\<close>

fun count_rows :: "sync_counts \<Rightarrow> row_dict list \<Rightarrow> sync_counts" where
  "count_rows c [] = c"
| "count_rows c (row # rest) =
     (if DeviceType_is ''u'' row
      then count_rows (c\<lparr>user_terminal_count := user_terminal_count c + 1\<rparr>) rest
      else if DeviceType_is ''r'' row
      then count_rows (c\<lparr>router_count := router_count c + 1\<rparr>) rest
      else if DeviceType_is ''i'' row
      then count_rows (c\<lparr>ip_allocation_count := ip_allocation_count c + 1\<rparr>) rest
      else count_rows c rest)"

text \<open>
  \<open>sync_telemetry\<close>. The body is \<open>request.json\<close>: \<open>None\<close> when reading it raises, else
  the value of its key 'account_number' (\<open>None\<close> when absent). The handler works on a
  new \<open>StarlinkAPI()\<close>. It is given the telemetry tables and the upstream's log and hands
  both back; every exception ends in the 500 of the outer \<open>except\<close>.
\<close>

definition sync_telemetry ::
  "nat \<Rightarrow> upstream \<Rightarrow> string option option \<Rightarrow> telemetry_db \<times> world \<Rightarrow>
   sync_counts http_response \<times> telemetry_db \<times> world" where
  "sync_telemetry depth up body dbw =
     (let db = fst dbw; w = snd dbw in
      case body of
        None \<Rightarrow> (Error_response ''An error occurred while syncing telemetry data'' 500, db, w)
      | Some account_number \<Rightarrow>
          if \<not> truthy account_number
          then (Error_response ''Account number is required'' 400, db, w)
          else
            (let starlink_api = StarlinkAPI_init;
                 fetched = get_telemetry depth up
                             (case account_number of Some a \<Rightarrow> a | None \<Rightarrow> [])
                             (starlink_api, w);
                 w' = snd (snd fetched)
             in case fst fetched of
                  None \<Rightarrow>
                    (Error_response ''Failed to get telemetry data from Starlink API'' 500, db, w')
                | Some telemetry_data \<Rightarrow>
                    if payload_falsy telemetry_data
                    then (Error_response ''Failed to get telemetry data from Starlink API'' 500,
                          db, w')
                    else
                      (case process_telemetry_data (Some telemetry_data) of
                         Inl e \<Rightarrow>
                           (Error_response ''An error occurred while syncing telemetry data'' 500,
                            db, w')
                       | Inr None \<Rightarrow>
                           (Error_response ''Failed to process telemetry data'' 500, db, w')
                       | Inr (Some processed_data') \<Rightarrow>
                           (Success_response
                              (count_rows
                                 \<lparr>user_terminal_count = 0, router_count = 0,
                                  ip_allocation_count = 0\<rparr>
                                 (processed_data processed_data'))
                              (Some ''Telemetry data synced successfully'') 200,
                            db, w'))))"

subsection \<open>GET /telemetry/stats/usage and /telemetry/stats/performance\<close>

text \<open>The query parameters, each \<open>None\<close> when absent; \<open>period\<close> defaults to 'day'.\<close>

record stats_args =
  arg_device_id :: "string option"
  arg_organization_id :: "string option"
  arg_period :: "string option"

definition microseconds_per_day :: int where
  "microseconds_per_day = 86400000000"

text \<open>\<open>end_time - timedelta(...)\<close> for the three periods; \<open>None\<close> for any other word.\<close>

definition period_start :: "string \<Rightarrow> int \<Rightarrow> int option" where
  "period_start period end_time =
     (if period = ''day'' then Some (end_time - 1 * microseconds_per_day)
      else if period = ''week'' then Some (end_time - 7 * microseconds_per_day)
      else if period = ''month'' then Some (end_time - 30 * microseconds_per_day)
      else None)"

text \<open>
  The rows a statistics query aggregates. Both handlers build it the same way over their
  own table: \<open>filter(X.device_id == device_id)\<close> when device_id is given,
  \<open>join(Device).filter(Device.organization_id == organization_id)\<close> when
  organization_id is given (the join is on the foreign key \<open>X.device_id = devices.id\<close>;
  a row appears once per matching device row), and \<open>X.time.between(start_time,
  end_time)\<close>.
\<close>

definition scoped_query ::
  "('r \<Rightarrow> string) \<Rightarrow> ('r \<Rightarrow> int) \<Rightarrow> Device list \<Rightarrow> 'r list \<Rightarrow>
   string option \<Rightarrow> string option \<Rightarrow> int \<Rightarrow> int \<Rightarrow> 'r list" where
  "scoped_query row_device_id row_time devs table device_id organization_id start_time end_time =
     (let q0 = table;
          q1 = (case device_id of
                  Some d \<Rightarrow> if d \<noteq> [] then filter (\<lambda>row. row_device_id row = d) q0 else q0
                | None \<Rightarrow> q0);
          q2 = (case organization_id of
                  Some org \<Rightarrow>
                    if org \<noteq> []
                    then concat (map (\<lambda>row.
                           map (\<lambda>dev. row)
                             (filter (\<lambda>dev. Device_id dev = row_device_id row \<and>
                                            Device_organization_id dev = org) devs))
                           q1)
                    else q1
                | None \<Rightarrow> q1)
      in filter (\<lambda>row. start_time \<le> row_time row \<and> row_time row \<le> end_time) q2)"

definition usage_rows ::
  "telemetry_db \<Rightarrow> string option \<Rightarrow> string option \<Rightarrow> int \<Rightarrow> int \<Rightarrow> RouterTelemetry list" where
  "usage_rows db =
     scoped_query RouterTelemetry_device_id RouterTelemetry_time (devices db) (router_telemetry db)"

definition performance_rows ::
  "telemetry_db \<Rightarrow> string option \<Rightarrow> string option \<Rightarrow> int \<Rightarrow> int \<Rightarrow>
   UserTerminalTelemetry list" where
  "performance_rows db =
     scoped_query UserTerminalTelemetry_device_id UserTerminalTelemetry_time (devices db)
       (user_terminal_telemetry db)"

text \<open>SQL \<open>SUM\<close>: NULLs are skipped, and the sum of no value is NULL.\<close>

definition sql_sum :: "int option list \<Rightarrow> int option" where
  "sql_sum xs =
     (case concat (map (\<lambda>x. case x of None \<Rightarrow> [] | Some v \<Rightarrow> [v]) xs) of
        [] \<Rightarrow> None
      | v # vs \<Rightarrow> Some (sum_list (v # vs)))"

text \<open>\<open>x or 0\<close> for a nullable integer.\<close>

definition or_0 :: "int option \<Rightarrow> int" where
  "or_0 x = (case x of None \<Rightarrow> 0 | Some v \<Rightarrow> v)"

text \<open>
  The usage reply. Its three \<open>*_gb\<close> fields are the same sums divided and rounded in
  floating point; they are left out.
\<close>

record usage_stats =
  usage_period :: string
  usage_start_time :: int
  usage_end_time :: int
  upload_bytes :: int
  download_bytes :: int
  total_bytes :: int

text \<open>\<open>get_usage_stats\<close>; \<open>now\<close> is the reading of \<open>datetime.utcnow()\<close>.\<close>

definition get_usage_stats :: "telemetry_db \<Rightarrow> int \<Rightarrow> stats_args \<Rightarrow> usage_stats http_response" where
  "get_usage_stats db now args =
     (let device_id = arg_device_id args;
          organization_id = arg_organization_id args;
          period = (case arg_period args of None \<Rightarrow> ''day'' | Some p \<Rightarrow> p)
      in if \<not> truthy device_id \<and> \<not> truthy organization_id
         then Error_response ''Either device_id or organization_id is required'' 400
         else
           (let end_time = now in
            case period_start period end_time of
              None \<Rightarrow> Error_response ''Invalid period. Use day, week, or month'' 400
            | Some start_time \<Rightarrow>
                (let rows = usage_rows db device_id organization_id start_time end_time;
                     total_tx_bytes = or_0 (sql_sum (map wan_tx_bytes rows));
                     total_rx_bytes = or_0 (sql_sum (map wan_rx_bytes rows));
                     total_bytes' = total_tx_bytes + total_rx_bytes
                 in Success_response
                      \<lparr>usage_period = period, usage_start_time = start_time,
                       usage_end_time = end_time, upload_bytes = total_tx_bytes,
                       download_bytes = total_rx_bytes, total_bytes = total_bytes'\<rparr>
                      None 200)))"

text \<open>
  The performance reply holds six averages, each \<open>round(avg or 0, digits)\<close> of a float
  column. The floating-point part is the parameter \<open>avg_round\<close>: it receives the column's
  values over the selected rows and the number of digits.
\<close>

record 'f performance_stats =
  performance_period :: string
  performance_start_time :: int
  performance_end_time :: int
  avg_downlink_throughput :: 'f
  avg_uplink_throughput :: 'f
  avg_ping_latency :: 'f
  avg_ping_drop_rate :: 'f
  avg_obstruction_percent :: 'f
  avg_signal_quality :: 'f

definition get_performance_stats ::
  "(real option list \<Rightarrow> nat \<Rightarrow> 'f) \<Rightarrow> telemetry_db \<Rightarrow> int \<Rightarrow> stats_args \<Rightarrow>
   'f performance_stats http_response" where
  "get_performance_stats avg_round db now args =
     (let device_id = arg_device_id args;
          organization_id = arg_organization_id args;
          period = (case arg_period args of None \<Rightarrow> ''day'' | Some p \<Rightarrow> p)
      in if \<not> truthy device_id \<and> \<not> truthy organization_id
         then Error_response ''Either device_id or organization_id is required'' 400
         else
           (let end_time = now in
            case period_start period end_time of
              None \<Rightarrow> Error_response ''Invalid period. Use day, week, or month'' 400
            | Some start_time \<Rightarrow>
                (let rows = performance_rows db device_id organization_id start_time end_time
                 in Success_response
                      \<lparr>performance_period = period, performance_start_time = start_time,
                       performance_end_time = end_time,
                       avg_downlink_throughput = avg_round (map downlink_throughput rows) 2,
                       avg_uplink_throughput = avg_round (map uplink_throughput rows) 2,
                       avg_ping_latency = avg_round (map ping_latency_ms_avg rows) 2,
                       avg_ping_drop_rate = avg_round (map ping_drop_rate_avg rows) 4,
                       avg_obstruction_percent = avg_round (map obstruction_percent_time rows) 2,
                       avg_signal_quality = avg_round (map signal_quality rows) 2\<rparr>
                      None 200)))"

section \<open>Registration (src/routes/auth.py)\<close>

text \<open>
  The users table next to the tables of the permission model, and the unit of work of
  the ORM session: rows added and not yet committed, and the number of commits so far.
\<close>

record User =
  User_id :: string
  User_email :: string
  User_password_hash :: string
  User_first_name :: "string option"
  User_last_name :: "string option"
  User_phone :: "string option"

record account_db = database +
  users :: "User list"

datatype pending_row = NewUser User | NewUserRole UserRole

record db_session =
  committed :: account_db
  pending :: "pending_row list"
  commits :: nat

text \<open>
  What the route takes from its surroundings: the hash functions of werkzeug and of
  bcrypt, the uuid the \<open>id\<close> column defaults to, and whether the n-th commit reaches the
  storage.
\<close>

record register_env =
  generate_password_hash :: "string \<Rightarrow> string"
  bcrypt_hashpw :: "string \<Rightarrow> string"
  new_uuid :: string
  storage_ok :: "nat \<Rightarrow> bool"

text \<open>
  \<open>User.__init__(self, email, password, first_name=None, last_name=None, phone=None)\<close>
  of src/models/user.py, called with keyword arguments only. Python raises TypeError for
  a keyword that names no parameter and for a required parameter that is not given;
  otherwise the object holds the email, the bcrypt hash of the password and the three
  optional fields.
\<close>

definition User_init ::
  "register_env \<Rightarrow> (string \<times> string) list \<Rightarrow> py_error + User" where
  "User_init env kwargs =
     (if list_ex (\<lambda>k. k \<notin> set [''email'', ''password'', ''first_name'', ''last_name'', ''phone''])
           (map fst kwargs)
      then Inl TypeError
      else
        (case map_of kwargs ''email'' of
           None \<Rightarrow> Inl TypeError
         | Some email \<Rightarrow>
             (case map_of kwargs ''password'' of
                None \<Rightarrow> Inl TypeError
              | Some password \<Rightarrow>
                  Inr \<lparr>User_id = new_uuid env, User_email = email,
                       User_password_hash = bcrypt_hashpw env password,
                       User_first_name = map_of kwargs ''first_name'',
                       User_last_name = map_of kwargs ''last_name'',
                       User_phone = map_of kwargs ''phone''\<rparr>)))"

text \<open>
  The constraints of the schema (src/models/user.py) that an insert must meet: the user's
  id and email are unique; the three columns of a UserRole are its primary key, hence
  not NULL, and its user and role must exist.
\<close>

definition insert_row :: "account_db \<Rightarrow> pending_row \<Rightarrow> account_db option" where
  "insert_row db row =
     (case row of
        NewUser u \<Rightarrow>
          if User_id u \<in> set (map User_id (users db)) \<or>
             User_email u \<in> set (map User_email (users db))
          then None
          else Some (db\<lparr>users := users db @ [u]\<rparr>)
      | NewUserRole ur \<Rightarrow>
          if UserRole_organization_id ur = None \<or>
             UserRole_user_id ur \<notin> set (map User_id (users db)) \<or>
             UserRole_role_id ur \<notin> set (map Role_id (roles db))
          then None
          else Some (db\<lparr>user_roles := user_roles db @ [ur]\<rparr>))"

fun flush :: "account_db \<Rightarrow> pending_row list \<Rightarrow> account_db option" where
  "flush db [] = Some db"
| "flush db (row # rest) =
     (case insert_row db row of None \<Rightarrow> None | Some db' \<Rightarrow> flush db' rest)"

text \<open>\<open>db.session.add\<close>, \<open>db.session.commit\<close> (\<open>False\<close> when it raises) and
  \<open>db.session.rollback\<close>. A commit makes the pending rows durable; a rollback drops
  what is pending and cannot reach what an earlier commit stored.\<close>

definition session_add :: "pending_row \<Rightarrow> db_session \<Rightarrow> db_session" where
  "session_add row s = s\<lparr>pending := pending s @ [row]\<rparr>"

definition session_commit :: "register_env \<Rightarrow> db_session \<Rightarrow> bool \<times> db_session" where
  "session_commit env s =
     (let s' = s\<lparr>commits := Suc (commits s)\<rparr> in
      if storage_ok env (commits s)
      then (case flush (committed s) (pending s) of
              Some db' \<Rightarrow> (True, s'\<lparr>committed := db', pending := []\<rparr>)
            | None \<Rightarrow> (False, s'))
      else (False, s'))"

definition session_rollback :: "db_session \<Rightarrow> db_session" where
  "session_rollback s = s\<lparr>pending := []\<rparr>"

text \<open>
  The request as \<open>register_schema.load(request.json)\<close> leaves it: the messages of a
  ValidationError, or the loaded fields (\<open>data.get('first_name', '')\<close> and its like read
  the optional ones).
\<close>

record register_data =
  data_email :: string
  data_password :: string
  data_first_name :: "string option"
  data_last_name :: "string option"
  data_phone :: "string option"

definition get_or_empty :: "string option \<Rightarrow> string" where
  "get_or_empty x = (case x of None \<Rightarrow> [] | Some v \<Rightarrow> v)"

text \<open>
  Lines 41 to 56 of \<open>register\<close>, what the route does with the row object once it has
  one: add it and commit, then add the UserRole of the role named 'Client' and commit
  again. A commit that raises is answered by the \<open>except Exception\<close> branch of the route
  (rollback, 500).
\<close>

definition register_store ::
  "register_env \<Rightarrow> User \<Rightarrow> db_session \<Rightarrow> unit http_response \<times> db_session" where
  "register_store env new_user s =
     (let first_commit = session_commit env (session_add (NewUser new_user) s)
      in if \<not> fst first_commit
         then (Error_response ''An error occurred during registration'' 500,
               session_rollback (snd first_commit))
         else
           (case find (\<lambda>r. Role_name r = ''Client'') (roles (committed (snd first_commit))) of
              None \<Rightarrow>
                (Success_response () (Some ''User registered successfully'') 201,
                 snd first_commit)
            | Some client_role \<Rightarrow>
                (let user_role =
                       \<lparr>UserRole_user_id = User_id new_user,
                        UserRole_role_id = Role_id client_role,
                        UserRole_organization_id = None\<rparr>;
                     second_commit =
                       session_commit env
                         (session_add (NewUserRole user_role) (snd first_commit))
                 in if \<not> fst second_commit
                    then (Error_response ''An error occurred during registration'' 500,
                          session_rollback (snd second_commit))
                    else
                      (Success_response () (Some ''User registered successfully'') 201,
                       snd second_commit))))"

text \<open>
  \<open>register\<close>: validation, the check for a user with the same email, the call
  \<open>User(email=..., password_hash=..., first_name=..., last_name=..., phone=...)\<close>, and
  the writes. An exception of the constructor call, like any other, is answered by the
  \<open>except Exception\<close> branch: rollback and 500.
\<close>

definition register ::
  "register_env \<Rightarrow> string list + register_data \<Rightarrow> db_session \<Rightarrow>
   unit http_response \<times> db_session" where
  "register env loaded s =
     (case loaded of
        Inl messages \<Rightarrow> (Error_response ''Validation error'' 400, s)
      | Inr data \<Rightarrow>
          (case find (\<lambda>u. User_email u = data_email data) (users (committed s)) of
             Some existing_user \<Rightarrow> (Error_response ''Email already registered'' 409, s)
           | None \<Rightarrow>
               (case User_init env
                       [(''email'', data_email data),
                        (''password_hash'', generate_password_hash env (data_password data)),
                        (''first_name'', get_or_empty (data_first_name data)),
                        (''last_name'', get_or_empty (data_last_name data)),
                        (''phone'', get_or_empty (data_phone data))] of
                  Inl e \<Rightarrow>
                    (Error_response ''An error occurred during registration'' 500,
                     session_rollback s)
                | Inr new_user \<Rightarrow> register_store env new_user s)))"

section \<open>Properties of the evaluator\<close>

lemma find_None_iff_list_ex: "(find P xs = None) = (\<not> list_ex P xs)"
  by (induction xs) auto

lemma find_Some_sat: "find P xs = Some x \<Longrightarrow> P x \<and> x \<in> set xs"
  by (induction xs) (auto split: if_splits)

lemma find_distinct_key:
  "distinct (map k xs) \<Longrightarrow> x \<in> set xs \<Longrightarrow> find (\<lambda>y. k y = k x) xs = Some x"
proof (induction xs)
  case Nil
  then show ?case by simp
next
  case (Cons a xs)
  show ?case
  proof (cases "a = x")
    case True
    then show ?thesis by simp
  next
    case False
    with Cons.prems have in_tl: "x \<in> set xs" by simp
    from Cons.prems in_tl have "k a \<noteq> k x" by force
    with Cons in_tl show ?thesis by simp
  qed
qed

lemma super_admin_loop_iff:
  "super_admin_loop db urs =
     list_ex (\<lambda>ur. case Role_query_get db (UserRole_role_id ur) of
                      Some role \<Rightarrow> Role_name role = ''Super Admin'' | None \<Rightarrow> False) urs"
  by (induction urs) (auto split: option.splits)

lemma role_permission_loop_iff:
  "role_permission_loop db p urs =
     list_ex (\<lambda>ur. RolePermission_first db (UserRole_role_id ur) (Permission_id p) \<noteq> None) urs"
  by (induction urs) (auto split: option.splits)

lemma super_admin_loop_holds:
  "super_admin_loop db (UserRole_filter_by_user db user_id) \<Longrightarrow>
   holds_role db user_id ''Super Admin''"
  unfolding super_admin_loop_iff holds_role_def UserRole_filter_by_user_def Role_query_get_def
  by (fastforce simp: list_ex_iff split: option.splits dest: find_Some_sat)

lemma holds_super_admin_loop:
  assumes "role_keys_unique db" and "holds_role db user_id ''Super Admin''"
  shows "super_admin_loop db (UserRole_filter_by_user db user_id)"
proof -
  from assms(2) obtain ur r
    where ur: "ur \<in> set (user_roles db)" "UserRole_user_id ur = user_id"
      and r: "r \<in> set (roles db)" "Role_id r = UserRole_role_id ur"
             "Role_name r = ''Super Admin''"
    unfolding holds_role_def list_ex_iff by blast
  from assms(1) r(1) have "find (\<lambda>y. Role_id y = Role_id r) (roles db) = Some r"
    unfolding role_keys_unique_def by (rule find_distinct_key)
  with r have "Role_query_get db (UserRole_role_id ur) = Some r"
    by (simp add: Role_query_get_def)
  with ur r(3) show ?thesis
    unfolding super_admin_loop_iff UserRole_filter_by_user_def list_ex_iff by force
qed

lemma role_permission_loop_linked:
  "role_permission_loop db p (UserRole_filter_by_user db user_id) = role_linked db user_id p"
  unfolding role_permission_loop_iff role_linked_def UserRole_filter_by_user_def
    RolePermission_first_def find_None_iff_list_ex
  by (auto simp: list_ex_iff)

lemma Permission_first_registered:
  assumes "uq_resource_action db" and "p \<in> set (permissions db)"
  shows "Permission_first db (Permission_resource p) (Permission_action p) = Some p"
proof -
  let ?k = "\<lambda>p. (Permission_resource p, Permission_action p)"
  from assms have "find (\<lambda>y. ?k y = ?k p) (permissions db) = Some p"
    unfolding uq_resource_action_def by (rule find_distinct_key)
  then show ?thesis by (simp add: Permission_first_def)
qed

subsection \<open>A small database for the concrete instances\<close>

definition seeded_db :: database where
  "seeded_db =
     \<lparr>roles = [\<lparr>Role_id = ''r1'', Role_name = ''Super Admin''\<rparr>,
               \<lparr>Role_id = ''r2'', Role_name = ''Client''\<rparr>,
               \<lparr>Role_id = ''r3'', Role_name = ''Viewer''\<rparr>],
      permissions =
        [\<lparr>Permission_id = ''p1'', Permission_resource = ''device'',
           Permission_action = ''read''\<rparr>,
         \<lparr>Permission_id = ''p2'', Permission_resource = ''telemetry'',
           Permission_action = ''read''\<rparr>],
      role_permissions =
        [\<lparr>RolePermission_role_id = ''r2'', RolePermission_permission_id = ''p1''\<rparr>],
      user_roles =
        [\<lparr>UserRole_user_id = ''alice'', UserRole_role_id = ''r1'',
           UserRole_organization_id = Some ''org1''\<rparr>,
         \<lparr>UserRole_user_id = ''bob'', UserRole_role_id = ''r2'',
           UserRole_organization_id = Some ''org1''\<rparr>,
         \<lparr>UserRole_user_id = ''carol'', UserRole_role_id = ''r3'',
           UserRole_organization_id = Some ''org2''\<rparr>]\<rparr>"

definition device_read :: Permission where
  "device_read = \<lparr>Permission_id = ''p1'', Permission_resource = ''device'',
                   Permission_action = ''read''\<rparr>"

subsection \<open>Super Admin bypass\<close>

text \<open>
  Claim C1. A user with a UserRole row whose Role is named "Super Admin" gets the wrapped
  handler invoked for every (resource, action), whatever the Permission and
  RolePermission tables hold (\<open>ps\<close> and \<open>rps\<close> are arbitrary, the empty catalog
  included): no permission lookup takes part in the decision.
\<close>

theorem C1_super_admin_bypass:
  assumes "role_keys_unique db" and "holds_role db user_id ''Super Admin''"
  shows "permission_required resource action f
           (db\<lparr>permissions := ps, role_permissions := rps\<rparr>) (Some user_id) = invoke f"
proof -
  let ?db = "db\<lparr>permissions := ps, role_permissions := rps\<rparr>"
  from assms have "role_keys_unique ?db" and "holds_role ?db user_id ''Super Admin''"
    by (simp_all add: role_keys_unique_def holds_role_def)
  then have "super_admin_loop ?db (UserRole_filter_by_user ?db user_id)"
    by (rule holds_super_admin_loop)
  then show ?thesis by (simp add: permission_required_def)
qed

theorem C1_super_admin_bypass_witness:
  "role_keys_unique seeded_db \<and> holds_role seeded_db ''alice'' ''Super Admin'' \<and>
   permission_required ''device'' ''delete'' (Some (7::nat))
     (seeded_db\<lparr>permissions := [], role_permissions := []\<rparr>) (Some ''alice'') = Called 7"
proof -
  have h1: "role_keys_unique seeded_db"
    by (simp add: role_keys_unique_def seeded_db_def)
  have h2: "holds_role seeded_db ''alice'' ''Super Admin''"
    by (simp add: holds_role_def seeded_db_def)
  from C1_super_admin_bypass [OF h1 h2, of "''device''" "''delete''" "Some (7::nat)" "[]" "[]"]
  show ?thesis using h1 h2 by (simp add: invoke_def)
qed

subsection \<open>Organization independence\<close>

definition user_role_pairs :: "database \<Rightarrow> (string \<times> string) set" where
  "user_role_pairs db =
     set (map (\<lambda>ur. (UserRole_user_id ur, UserRole_role_id ur)) (user_roles db))"

lemma list_ex_user_roles_pairs:
  "list_ex (\<lambda>ur. Q (UserRole_role_id ur)) (UserRole_filter_by_user db user_id) =
     (\<exists>rid. (user_id, rid) \<in> user_role_pairs db \<and> Q rid)"
  unfolding UserRole_filter_by_user_def user_role_pairs_def list_ex_iff by auto

text \<open>
  Claim C4. Two database states with the same Role, Permission and RolePermission rows
  and the same set of (user, role) pairs in UserRole give the same reply for every
  credential, resource, action and handler, whatever the organization column (and the
  order and multiplicity of the UserRole rows) is.
\<close>

theorem C4_organization_independent:
  assumes "roles db' = roles db" and "permissions db' = permissions db"
    and "role_permissions db' = role_permissions db"
    and "user_role_pairs db' = user_role_pairs db"
  shows "permission_required resource action f db' credential =
         permission_required resource action f db credential"
proof -
  have rq: "Role_query_get db' = Role_query_get db"
    using assms(1) by (simp add: Role_query_get_def fun_eq_iff)
  have pf: "Permission_first db' = Permission_first db"
    using assms(2) by (simp add: Permission_first_def fun_eq_iff)
  have rp: "RolePermission_first db' = RolePermission_first db"
    using assms(3) by (simp add: RolePermission_first_def fun_eq_iff)
  have sa: "super_admin_loop db' (UserRole_filter_by_user db' u) =
            super_admin_loop db (UserRole_filter_by_user db u)" for u
    unfolding super_admin_loop_iff rq
    using list_ex_user_roles_pairs
      [of "\<lambda>rid. case Role_query_get db rid of
                   Some role \<Rightarrow> Role_name role = ''Super Admin'' | None \<Rightarrow> False"]
    by (simp add: assms(4))
  have ed: "role_permission_loop db' p (UserRole_filter_by_user db' u) =
            role_permission_loop db p (UserRole_filter_by_user db u)" for u p
    unfolding role_permission_loop_iff rp
    using list_ex_user_roles_pairs
      [of "\<lambda>rid. RolePermission_first db rid (Permission_id p) \<noteq> None"]
    by (simp add: assms(4))
  show ?thesis
    by (simp add: permission_required_def sa ed pf split: option.splits)
qed

text \<open>The same rows as \<open>seeded_db\<close>, every UserRole moved to another organization.\<close>

definition moved_db :: database where
  "moved_db =
     seeded_db\<lparr>user_roles :=
       map (\<lambda>ur. ur\<lparr>UserRole_organization_id := Some ''org9''\<rparr>) (user_roles seeded_db)\<rparr>"

theorem C4_organization_independent_witness:
  "roles moved_db = roles seeded_db \<and> permissions moved_db = permissions seeded_db \<and>
   role_permissions moved_db = role_permissions seeded_db \<and>
   user_role_pairs moved_db = user_role_pairs seeded_db \<and>
   user_roles moved_db \<noteq> user_roles seeded_db \<and>
   permission_required ''device'' ''read'' (Some (7::nat)) moved_db (Some ''bob'') =
   permission_required ''device'' ''read'' (Some 7) seeded_db (Some ''bob'')"
proof -
  have h1: "roles moved_db = roles seeded_db" by (simp add: moved_db_def)
  have h2: "permissions moved_db = permissions seeded_db" by (simp add: moved_db_def)
  have h3: "role_permissions moved_db = role_permissions seeded_db"
    by (simp add: moved_db_def)
  have h4: "user_role_pairs moved_db = user_role_pairs seeded_db"
    by (simp add: user_role_pairs_def moved_db_def seeded_db_def)
  have h5: "user_roles moved_db \<noteq> user_roles seeded_db"
    by (simp add: moved_db_def seeded_db_def)
  from C4_organization_independent [OF h1 h2 h3 h4] h1 h2 h3 h4 h5
  show ?thesis by simp
qed

subsection \<open>Unregistered permissions\<close>

text \<open>
  Claim C5. For an authenticated user without the Super Admin role and a (resource,
  action) pair with no row in the Permission catalog, the reply is the 403 with the
  message 'Permission not found', which differs from the 403 of an ordinary denial
  ('Permission denied').
\<close>

theorem C5_permission_not_found:
  assumes "\<not> holds_role db user_id ''Super Admin''"
    and "\<not> list_ex (\<lambda>p. Permission_resource p = resource \<and> Permission_action p = action)
             (permissions db)"
  shows "permission_required resource action f db (Some user_id) =
           Json ''Permission not found'' 403
       \<and> permission_required resource action f db (Some user_id) \<noteq>
           Json ''Permission denied'' 403"
proof -
  from assms(1) have "\<not> super_admin_loop db (UserRole_filter_by_user db user_id)"
    using super_admin_loop_holds by blast
  moreover from assms(2) have "Permission_first db resource action = None"
    by (simp add: Permission_first_def find_None_iff_list_ex)
  ultimately show ?thesis by (simp add: permission_required_def)
qed

theorem C5_permission_not_found_witness:
  "permission_required ''telemetry'' ''create'' (Some (7::nat)) seeded_db (Some ''bob'') =
     Json ''Permission not found'' 403"
proof -
  have h1: "\<not> holds_role seeded_db ''bob'' ''Super Admin''"
    by (simp add: holds_role_def seeded_db_def)
  have h2: "\<not> list_ex (\<lambda>p. Permission_resource p = ''telemetry'' \<and>
                            Permission_action p = ''create'') (permissions seeded_db)"
    by (simp add: seeded_db_def)
  from C5_permission_not_found [OF h1 h2, of "Some (7::nat)"] show ?thesis by simp
qed

subsection \<open>Grant and denial through role permissions\<close>

text \<open>
  Claim C6. For an authenticated user without the Super Admin role and a registered
  Permission \<open>p\<close> (the catalog holds one row per (resource, action), the constraint
  uq_resource_action of the schema): the handler is invoked when some role of the user
  has a RolePermission edge to \<open>p\<close>, and the reply is the 403 'Permission denied' when
  none has.
\<close>

theorem C6_role_grant:
  assumes "\<not> holds_role db user_id ''Super Admin''"
    and "uq_resource_action db" and "p \<in> set (permissions db)"
  shows "permission_required (Permission_resource p) (Permission_action p) f db (Some user_id) =
           (if role_linked db user_id p then invoke f else Json ''Permission denied'' 403)"
proof -
  from assms(1) have "\<not> super_admin_loop db (UserRole_filter_by_user db user_id)"
    using super_admin_loop_holds by blast
  moreover from assms(2,3)
  have "Permission_first db (Permission_resource p) (Permission_action p) = Some p"
    by (rule Permission_first_registered)
  ultimately show ?thesis
    by (simp add: permission_required_def role_permission_loop_linked)
qed

theorem C6_role_grant_witness:
  "permission_required ''device'' ''read'' (Some (7::nat)) seeded_db (Some ''bob'') = Called 7 \<and>
   permission_required ''device'' ''read'' (Some (7::nat)) seeded_db (Some ''carol'') =
     Json ''Permission denied'' 403"
proof -
  have uq: "uq_resource_action seeded_db"
    by (simp add: uq_resource_action_def seeded_db_def)
  have reg: "device_read \<in> set (permissions seeded_db)"
    by (simp add: device_read_def seeded_db_def)
  have b1: "\<not> holds_role seeded_db ''bob'' ''Super Admin''"
    by (simp add: holds_role_def seeded_db_def)
  have c1: "\<not> holds_role seeded_db ''carol'' ''Super Admin''"
    by (simp add: holds_role_def seeded_db_def)
  have b2: "role_linked seeded_db ''bob'' device_read"
    by (simp add: role_linked_def seeded_db_def device_read_def)
  have c2: "\<not> role_linked seeded_db ''carol'' device_read"
    by (simp add: role_linked_def seeded_db_def device_read_def)
  from C6_role_grant [OF b1 uq reg, of "Some (7::nat)"]
    C6_role_grant [OF c1 uq reg, of "Some (7::nat)"] b2 c2
  show ?thesis by (simp add: invoke_def device_read_def)
qed

section \<open>Properties of the telemetry client\<close>

definition is_401 :: "http_answer \<Rightarrow> bool" where
  "is_401 a = (case a of Answer status_code body \<Rightarrow> status_code = 401 | NoAnswer \<Rightarrow> False)"

text \<open>What a call returns for an answer that is not a 401.\<close>

definition settle :: "http_answer \<Rightarrow> telemetry_payload option" where
  "settle a = (case a of Answer status_code body \<Rightarrow> raise_for_status_json status_code body
               | NoAnswer \<Rightarrow> None)"

text \<open>The test of \<open>_ensure_token\<close>: no usable token, or the clock has reached the expiry.\<close>

definition token_due :: "upstream \<Rightarrow> StarlinkAPI \<times> world \<Rightarrow> bool" where
  "token_due up sw =
     (\<not> truthy (access_token (fst sw)) \<or> clock up (clock_reads (snd sw)) \<ge> token_expiry (fst sw))"


lemma ensure_token_cached:
  assumes "\<not> token_due up (self, w)"
  shows "ensure_token up (self, w) = (True, self, w\<lparr>clock_reads := Suc (clock_reads w)\<rparr>)"
  using assms by (simp add: ensure_token_def token_due_def Let_def)

lemma ensure_token_acquire:
  assumes "token_due up (self, w)" and "truthy (token_answers up (token_exchanges w))"
  shows "ensure_token up (self, w) =
           (True,
            self\<lparr>access_token := token_answers up (token_exchanges w),
                 token_expiry := clock up (clock_reads w) + 14 * 60\<rparr>,
            w\<lparr>clock_reads := Suc (clock_reads w), calls := calls w @ [TokenExchange]\<rparr>)"
  using assms
  by (simp add: ensure_token_def token_due_def Let_def get_starlink_access_token_def
      token_exchanges_def)

lemma ensure_token_fail:
  assumes "token_due up (self, w)" and "\<not> truthy (token_answers up (token_exchanges w))"
  shows "ensure_token up (self, w) =
           (False, self\<lparr>access_token := token_answers up (token_exchanges w)\<rparr>,
            w\<lparr>clock_reads := Suc (clock_reads w), calls := calls w @ [TokenExchange]\<rparr>)"
  using assms
  by (simp add: ensure_token_def token_due_def Let_def get_starlink_access_token_def
      token_exchanges_def)

lemma ensure_token_calls:
  "\<exists>rest. calls (snd (snd (ensure_token up sw))) = calls (snd sw) @ rest"
  by (simp add: ensure_token_def Let_def get_starlink_access_token_def)

lemma get_telemetry_calls_grow:
  "\<exists>rest. calls (snd (snd (get_telemetry depth up acct sw))) = calls (snd sw) @ rest"
proof (induction depth arbitrary: sw)
  case 0
  then show ?case by simp
next
  case (Suc depth)
  obtain ok self1 w1 where e: "ensure_token up sw = (ok, self1, w1)"
    by (cases "ensure_token up sw") auto
  from ensure_token_calls [of up sw] e obtain r1 where r1: "calls w1 = calls (snd sw) @ r1"
    by auto
  let ?w2 = "w1\<lparr>calls := calls w1 @ [TelemetryPost (bearer self1) acct]\<rparr>"
  let ?sw' = "(self1\<lparr>access_token := None, token_expiry := 0\<rparr>, ?w2)"
  from Suc.IH [of ?sw'] obtain r2 where
    r2: "calls (snd (snd (get_telemetry depth up acct ?sw'))) = calls ?w2 @ r2" by auto
  show ?case
  proof (cases ok)
    case False
    with e r1 show ?thesis by simp
  next
    case True
    with e r1 r2 show ?thesis
      by (cases "telemetry_answers up (telemetry_posts w1)") (simp_all add: Let_def)
  qed
qed

text \<open>
  The Authorization header for a token, the token a fetch sends with its first request
  (the cached one, or the one it has just acquired when the token was due), and the calls
  of \<open>k\<close> retries: each is a token exchange followed by a telemetry request that carries
  the token this exchange returned.
\<close>

definition bearer_of :: "string option \<Rightarrow> string" where
  "bearer_of t = ''Bearer '' @ (case t of None \<Rightarrow> ''None'' | Some x \<Rightarrow> x)"

definition held_token :: "upstream \<Rightarrow> StarlinkAPI \<times> world \<Rightarrow> string option" where
  "held_token up sw =
     (if token_due up sw then token_answers up (token_exchanges (snd sw))
      else access_token (fst sw))"

definition first_attempt_calls ::
  "upstream \<Rightarrow> string \<Rightarrow> StarlinkAPI \<times> world \<Rightarrow> upstream_call list" where
  "first_attempt_calls up acct sw =
     (if token_due up sw then [TokenExchange] else []) @
     [TelemetryPost (bearer_of (held_token up sw)) acct]"

fun retry_calls :: "upstream \<Rightarrow> string \<Rightarrow> nat \<Rightarrow> nat \<Rightarrow> upstream_call list" where
  "retry_calls up acct j 0 = []"
| "retry_calls up acct j (Suc k) =
     TokenExchange # TelemetryPost (bearer_of (token_answers up j)) acct #
     retry_calls up acct (Suc j) k"

lemma bearer_conv: "bearer self = bearer_of (access_token self)"
  by (simp add: bearer_def bearer_of_def)

lemma retry_chain:
  assumes "\<forall>n. truthy (token_answers up n)"
    and "\<forall>m<k. is_401 (telemetry_answers up (telemetry_posts w + m))"
    and "\<not> is_401 (telemetry_answers up (telemetry_posts w + k))"
    and "k < depth"
  shows "fst (get_telemetry depth up acct (self, w)) =
           settle (telemetry_answers up (telemetry_posts w + k)) \<and>
         telemetry_posts (snd (snd (get_telemetry depth up acct (self, w)))) =
           telemetry_posts w + k + 1 \<and>
         token_exchanges (snd (snd (get_telemetry depth up acct (self, w)))) =
           token_exchanges w + k + (if token_due up (self, w) then 1 else 0) \<and>
         calls (snd (snd (get_telemetry depth up acct (self, w)))) =
           calls w @ first_attempt_calls up acct (self, w) @
           retry_calls up acct
             (token_exchanges w + (if token_due up (self, w) then 1 else 0)) k \<and>
         access_token (fst (snd (get_telemetry depth up acct (self, w)))) =
           (case k of
              0 \<Rightarrow> held_token up (self, w)
            | Suc k' \<Rightarrow>
                token_answers up
                  (token_exchanges w + (if token_due up (self, w) then 1 else 0) + k'))"
  using assms
proof (induction k arbitrary: self w depth)
  case 0
  then obtain d where d: "depth = Suc d" by (cases depth) auto
  from 0 have tok: "truthy (token_answers up (token_exchanges w))" by simp
  from 0 have n401: "\<not> is_401 (telemetry_answers up (telemetry_posts w))" by simp
  show ?case
  proof (cases "token_due up (self, w)")
    case True
    from ensure_token_acquire [OF True tok] n401 True show ?thesis
      unfolding d
      by (cases "telemetry_answers up (telemetry_posts w)")
         (simp_all add: is_401_def settle_def telemetry_posts_def token_exchanges_def Let_def
            first_attempt_calls_def held_token_def bearer_conv)
  next
    case False
    from ensure_token_cached [OF False] n401 False show ?thesis
      unfolding d
      by (cases "telemetry_answers up (telemetry_posts w)")
         (simp_all add: is_401_def settle_def telemetry_posts_def token_exchanges_def Let_def
            first_attempt_calls_def held_token_def bearer_conv)
  qed
next
  case (Suc k)
  then obtain d where d: "depth = Suc d" and kd: "k < d" by (cases depth) auto
  from Suc.prems have tok: "truthy (token_answers up (token_exchanges w))" by simp
  from Suc.prems(2) have first: "is_401 (telemetry_answers up (telemetry_posts w))"
    by (metis add.right_neutral zero_less_Suc)
  then obtain body where ans: "telemetry_answers up (telemetry_posts w) = Answer 401 body"
    by (cases "telemetry_answers up (telemetry_posts w)") (auto simp: is_401_def)
  define self1 where "self1 =
    (if token_due up (self, w)
     then self\<lparr>access_token := token_answers up (token_exchanges w),
               token_expiry := clock up (clock_reads w) + 14 * 60\<rparr> else self)"
  define w1 where "w1 =
    (if token_due up (self, w)
     then w\<lparr>clock_reads := Suc (clock_reads w), calls := calls w @ [TokenExchange]\<rparr>
     else w\<lparr>clock_reads := Suc (clock_reads w)\<rparr>)"
  define w2 where "w2 = w1\<lparr>calls := calls w1 @ [TelemetryPost (bearer self1) acct]\<rparr>"
  define cleared where "cleared = self1\<lparr>access_token := None, token_expiry := 0\<rparr>"
  define j1 where "j1 = token_exchanges w + (if token_due up (self, w) then 1 else 0)"
  have e: "ensure_token up (self, w) = (True, self1, w1)"
    using ensure_token_acquire [OF _ tok, of self] ensure_token_cached [of up self w]
    by (simp add: self1_def w1_def)
  have p1: "telemetry_posts w1 = telemetry_posts w"
    by (simp add: w1_def telemetry_posts_def)
  have p2: "telemetry_posts w2 = Suc (telemetry_posts w)"
    by (simp add: w2_def w1_def telemetry_posts_def)
  have x2: "token_exchanges w2 = j1"
    by (simp add: w2_def w1_def token_exchanges_def j1_def)
  have c2: "calls w2 = calls w @ first_attempt_calls up acct (self, w)"
    by (simp add: w2_def w1_def self1_def first_attempt_calls_def held_token_def bearer_conv)
  have step: "get_telemetry depth up acct (self, w) = get_telemetry d up acct (cleared, w2)"
    unfolding d by (simp add: e p1 ans Let_def w2_def cleared_def)
  have due': "token_due up (cleared, w2)"
    by (simp add: token_due_def cleared_def truthy_def)
  have f2: "first_attempt_calls up acct (cleared, w2) =
              [TokenExchange, TelemetryPost (bearer_of (token_answers up j1)) acct]"
    using due' by (simp add: first_attempt_calls_def held_token_def x2)
  have h2: "held_token up (cleared, w2) = token_answers up j1"
    using due' by (simp add: held_token_def x2)
  have a2: "\<forall>m<k. is_401 (telemetry_answers up (telemetry_posts w2 + m))"
    using Suc.prems(2) by (simp add: p2) (metis Suc_less_eq add_Suc_right)
  have a3: "\<not> is_401 (telemetry_answers up (telemetry_posts w2 + k))"
    using Suc.prems(3) by (simp add: p2)
  note ih = Suc.IH [OF Suc.prems(1) a2 a3 kd, of cleared]
  have r1: "fst (get_telemetry depth up acct (self, w)) =
              settle (telemetry_answers up (telemetry_posts w + Suc k))"
    using ih by (simp add: step p2)
  have r2: "telemetry_posts (snd (snd (get_telemetry depth up acct (self, w)))) =
              telemetry_posts w + Suc k + 1"
    using ih by (simp add: step p2)
  have r3: "token_exchanges (snd (snd (get_telemetry depth up acct (self, w)))) =
              token_exchanges w + Suc k + (if token_due up (self, w) then 1 else 0)"
    using ih due' by (simp add: step x2 j1_def)
  have r4: "calls (snd (snd (get_telemetry depth up acct (self, w)))) =
              calls w @ first_attempt_calls up acct (self, w) @ retry_calls up acct j1 (Suc k)"
    using ih due' by (simp add: step c2 f2 x2)
  have r5: "access_token (fst (snd (get_telemetry depth up acct (self, w)))) =
              token_answers up (j1 + k)"
    using ih due' by (cases k) (simp_all add: step h2 x2)
  from r1 r2 r3 r4 r5 show ?case by (simp add: j1_def)
qed


subsection \<open>Scripted upstreams for the concrete instances\<close>

definition scripted :: "http_answer list \<Rightarrow> nat \<Rightarrow> http_answer" where
  "scripted xs n = (if n < length xs then xs ! n else NoAnswer)"

definition empty_batch :: telemetry_payload where
  "empty_batch =
     \<lparr>payload_data = Some \<lparr>columnNamesByDeviceType = Some Map.empty, value_rows = Some []\<rparr>,
      payload_metadata = None\<rparr>"

definition vendor_401_401_200 :: upstream where
  "vendor_401_401_200 =
     \<lparr>clock = (\<lambda>n. 1000), token_answers = (\<lambda>n. Some ''tok''),
      telemetry_answers = scripted [Answer 401 None, Answer 401 None, Answer 200 (Some empty_batch)]\<rparr>"

definition vendor_401_200 :: upstream where
  "vendor_401_200 =
     \<lparr>clock = (\<lambda>n. 1000),
      token_answers = (\<lambda>n. if n = 0 then Some ''tok-a'' else Some ''tok-b''),
      telemetry_answers = scripted [Answer 401 None, Answer 200 (Some empty_batch)]\<rparr>"

definition world_init :: world where
  "world_init = \<lparr>clock_reads = 0, calls = []\<rparr>"

text \<open>
  The single-retry rule as the specification words it: after a second consecutive 401 the
  call ends in error, with exactly two telemetry attempts.
\<close>

definition single_retry_rule :: "nat \<Rightarrow> upstream \<Rightarrow> string \<Rightarrow> StarlinkAPI \<times> world \<Rightarrow> bool" where
  "single_retry_rule depth up acct sw =
     (is_401 (telemetry_answers up (telemetry_posts (snd sw))) \<and>
      is_401 (telemetry_answers up (telemetry_posts (snd sw) + 1)) \<longrightarrow>
      fst (get_telemetry depth up acct sw) = None \<and>
      telemetry_posts (snd (snd (get_telemetry depth up acct sw))) = telemetry_posts (snd sw) + 2)"

subsection \<open>Retry on 401\<close>

text \<open>
  Against the single-retry rule: the vendor answers 401, 401 and then 200. The call makes a
  third attempt and returns the payload of the 200.
\<close>

theorem C2_counterexample:
  "\<not> single_retry_rule 1000 vendor_401_401_200 ''ACC-1'' (StarlinkAPI_init, world_init) \<and>
   fst (get_telemetry 1000 vendor_401_401_200 ''ACC-1'' (StarlinkAPI_init, world_init)) =
     Some empty_batch \<and>
   telemetry_posts (snd (snd (get_telemetry 1000 vendor_401_401_200 ''ACC-1''
     (StarlinkAPI_init, world_init)))) = 3"
proof -
  let ?up = vendor_401_401_200
  have h1: "\<forall>n. truthy (token_answers ?up n)"
    by (simp add: vendor_401_401_200_def truthy_def)
  have p0: "telemetry_posts world_init = 0"
    by (simp add: telemetry_posts_def world_init_def)
  have a0: "is_401 (telemetry_answers ?up 0)" and a1: "is_401 (telemetry_answers ?up 1)"
    by (simp_all add: vendor_401_401_200_def scripted_def is_401_def)
  have h2: "\<forall>m<2. is_401 (telemetry_answers ?up (telemetry_posts world_init + m))"
    using a0 a1 by (simp add: p0 less_Suc_eq numeral_2_eq_2)
  have h3: "\<not> is_401 (telemetry_answers ?up (telemetry_posts world_init + 2))"
    by (simp add: p0 vendor_401_401_200_def scripted_def is_401_def)
  have h4: "(2::nat) < 1000" by simp
  have st: "settle (telemetry_answers ?up (telemetry_posts world_init + 2)) = Some empty_batch"
    by (simp add: p0 settle_def vendor_401_401_200_def scripted_def raise_for_status_json_def)
  from retry_chain [OF h1 h2 h3 h4, of "''ACC-1''" StarlinkAPI_init] st
  have run: "fst (get_telemetry 1000 ?up ''ACC-1'' (StarlinkAPI_init, world_init)) =
               Some empty_batch"
    "telemetry_posts (snd (snd (get_telemetry 1000 ?up ''ACC-1''
       (StarlinkAPI_init, world_init)))) = 3"
    by (simp_all add: p0)
  with a0 a1 show ?thesis
    by (simp add: single_retry_rule_def p0)
qed

text \<open>
  Claim C2, as amended. A fetch that receives a 401 clears the cached token and calls
  itself again, which acquires a fresh token; it does so after every 401, not only after
  the first. When the vendor answers \<open>k\<close> consecutive 401s and then something else
  (token exchanges succeeding, \<open>k\<close> below the nesting the interpreter allows), the call
  makes exactly \<open>k + 1\<close> telemetry attempts and returns what the last answer gives. Its
  calls are the first attempt followed by \<open>k\<close> retries, each retry one token exchange
  and then a telemetry request with the token that exchange returned; the token the
  client holds afterwards is the one of the last exchange.
\<close>

theorem C2_retry_after_every_401:
  assumes "\<forall>n. truthy (token_answers up n)"
    and "\<forall>m<k. is_401 (telemetry_answers up (telemetry_posts w + m))"
    and "\<not> is_401 (telemetry_answers up (telemetry_posts w + k))"
    and "k < depth"
  shows "fst (get_telemetry depth up acct (self, w)) =
           settle (telemetry_answers up (telemetry_posts w + k)) \<and>
         telemetry_posts (snd (snd (get_telemetry depth up acct (self, w)))) =
           telemetry_posts w + k + 1 \<and>
         token_exchanges (snd (snd (get_telemetry depth up acct (self, w)))) =
           token_exchanges w + k + (if token_due up (self, w) then 1 else 0) \<and>
         calls (snd (snd (get_telemetry depth up acct (self, w)))) =
           calls w @ first_attempt_calls up acct (self, w) @
           retry_calls up acct
             (token_exchanges w + (if token_due up (self, w) then 1 else 0)) k \<and>
         access_token (fst (snd (get_telemetry depth up acct (self, w)))) =
           (case k of
              0 \<Rightarrow> held_token up (self, w)
            | Suc k' \<Rightarrow>
                token_answers up
                  (token_exchanges w + (if token_due up (self, w) then 1 else 0) + k'))"
  using assms by (rule retry_chain)

text \<open>
  One 401, then 200: two telemetry attempts, the second with the token of the refresh.
\<close>

theorem C2_retry_after_every_401_witness:
  "fst (get_telemetry 1000 vendor_401_200 ''ACC-1'' (StarlinkAPI_init, world_init)) =
     Some empty_batch \<and>
   calls (snd (snd (get_telemetry 1000 vendor_401_200 ''ACC-1''
     (StarlinkAPI_init, world_init)))) =
     [TokenExchange, TelemetryPost ''Bearer tok-a'' ''ACC-1'',
      TokenExchange, TelemetryPost ''Bearer tok-b'' ''ACC-1''] \<and>
   access_token (fst (snd (get_telemetry 1000 vendor_401_200 ''ACC-1''
     (StarlinkAPI_init, world_init)))) = Some ''tok-b''"
proof -
  have h1: "\<forall>n. truthy (token_answers vendor_401_200 n)"
    by (simp add: vendor_401_200_def truthy_def)
  have p0: "telemetry_posts world_init = 0"
    by (simp add: telemetry_posts_def world_init_def)
  have h2: "\<forall>m<Suc 0. is_401 (telemetry_answers vendor_401_200 (telemetry_posts world_init + m))"
    by (simp add: p0 vendor_401_200_def scripted_def is_401_def)
  have h3: "\<not> is_401 (telemetry_answers vendor_401_200 (telemetry_posts world_init + Suc 0))"
    by (simp add: p0 vendor_401_200_def scripted_def is_401_def)
  have h4: "Suc 0 < 1000" by simp
  have due: "token_due vendor_401_200 (StarlinkAPI_init, world_init)"
    by (simp add: token_due_def StarlinkAPI_init_def truthy_def)
  have x0: "token_exchanges world_init = 0"
    by (simp add: token_exchanges_def world_init_def)
  have st: "settle (telemetry_answers vendor_401_200 (telemetry_posts world_init + Suc 0)) =
              Some empty_batch"
    by (simp add: p0 settle_def vendor_401_200_def scripted_def raise_for_status_json_def)
  have fa: "first_attempt_calls vendor_401_200 ''ACC-1'' (StarlinkAPI_init, world_init) =
              [TokenExchange, TelemetryPost ''Bearer tok-a'' ''ACC-1'']"
    using due by (simp add: first_attempt_calls_def held_token_def x0 bearer_of_def
        vendor_401_200_def)
  have rc: "retry_calls vendor_401_200 ''ACC-1'' (Suc 0) (Suc 0) =
              [TokenExchange, TelemetryPost ''Bearer tok-b'' ''ACC-1'']"
    by (simp add: bearer_of_def vendor_401_200_def)
  have t1: "token_answers vendor_401_200 (Suc 0) = Some ''tok-b''"
    by (simp add: vendor_401_200_def)
  have c0: "calls world_init = []" by (simp add: world_init_def)
  from C2_retry_after_every_401 [OF h1 h2 h3 h4, of "''ACC-1''" StarlinkAPI_init] due st
  show ?thesis by (simp add: x0 fa rc t1 c0 bearer_of_def)
qed

subsection \<open>Token cache\<close>

lemma fetch_cached:
  assumes "\<not> token_due up (self, w)"
  shows "\<exists>rest. calls (snd (snd (get_telemetry (Suc d) up acct (self, w)))) =
                  calls w @ TelemetryPost (bearer self) acct # rest \<and>
                (\<not> is_401 (telemetry_answers up (telemetry_posts w)) \<longrightarrow>
                   rest = [] \<and> fst (snd (get_telemetry (Suc d) up acct (self, w))) = self)"
proof (cases "telemetry_answers up (telemetry_posts w)")
  case NoAnswer
  with ensure_token_cached [OF assms] show ?thesis
    by (simp add: telemetry_posts_def Let_def)
next
  case (Answer code body)
  let ?w1 = "w\<lparr>clock_reads := Suc (clock_reads w)\<rparr>"
  let ?w2 = "?w1\<lparr>calls := calls ?w1 @ [TelemetryPost (bearer self) acct]\<rparr>"
  let ?sw' = "(self\<lparr>access_token := None, token_expiry := 0\<rparr>, ?w2)"
  show ?thesis
  proof (cases "code = 401")
    case True
    from get_telemetry_calls_grow [of d up acct ?sw'] obtain rest where
      "calls (snd (snd (get_telemetry d up acct ?sw'))) = calls ?w2 @ rest" by auto
    with ensure_token_cached [OF assms] Answer True show ?thesis
      by (simp add: telemetry_posts_def Let_def is_401_def)
  next
    case False
    with ensure_token_cached [OF assms] Answer show ?thesis
      by (simp add: telemetry_posts_def Let_def)
  qed
qed

lemma fetch_due:
  assumes "token_due up (self, w)" and "truthy (token_answers up (token_exchanges w))"
  shows "\<exists>rest. calls (snd (snd (get_telemetry (Suc d) up acct (self, w)))) =
                  calls w @ TokenExchange #
                    TelemetryPost (bearer (self\<lparr>access_token := token_answers up (token_exchanges w)\<rparr>))
                      acct # rest \<and>
                (\<not> is_401 (telemetry_answers up (telemetry_posts w)) \<longrightarrow>
                   rest = [] \<and>
                   fst (snd (get_telemetry (Suc d) up acct (self, w))) =
                     self\<lparr>access_token := token_answers up (token_exchanges w),
                          token_expiry := clock up (clock_reads w) + 14 * 60\<rparr>)"
proof (cases "telemetry_answers up (telemetry_posts w)")
  case NoAnswer
  with ensure_token_acquire [OF assms] show ?thesis
    by (simp add: telemetry_posts_def Let_def bearer_def)
next
  case (Answer code body)
  let ?self1 = "self\<lparr>access_token := token_answers up (token_exchanges w),
                      token_expiry := clock up (clock_reads w) + 14 * 60\<rparr>"
  let ?w1 = "w\<lparr>clock_reads := Suc (clock_reads w), calls := calls w @ [TokenExchange]\<rparr>"
  let ?w2 = "?w1\<lparr>calls := calls ?w1 @ [TelemetryPost (bearer ?self1) acct]\<rparr>"
  let ?sw' = "(?self1\<lparr>access_token := None, token_expiry := 0\<rparr>, ?w2)"
  show ?thesis
  proof (cases "code = 401")
    case True
    from get_telemetry_calls_grow [of d up acct ?sw'] obtain rest where
      "calls (snd (snd (get_telemetry d up acct ?sw'))) = calls ?w2 @ rest" by auto
    with ensure_token_acquire [OF assms] Answer True show ?thesis
      by (simp add: telemetry_posts_def Let_def is_401_def bearer_def)
  next
    case False
    with ensure_token_acquire [OF assms] Answer show ?thesis
      by (simp add: telemetry_posts_def Let_def bearer_def)
  qed
qed


text \<open>
  Claim C7, as amended. A token acquired at time \<open>t\<close> (the clock reading of
  \<open>_ensure_token\<close>) is cached with expiry \<open>t + 14 * 60\<close> seconds. A later fetch whose
  clock reading is before that expiry sends its telemetry request with the cached token
  and no token exchange before it, and makes no token exchange at all unless the vendor
  answers that request with 401 (then the retry of C2 acquires a new token). A fetch at
  or after the expiry makes exactly one token exchange and then sends the request with
  the new token, which is cached with its own expiry.
\<close>

theorem C7_token_cache:
  assumes due: "token_due up (self, w)"
    and got: "token_answers up (token_exchanges w) = Some tok" and ne: "tok \<noteq> []"
  shows "ensure_token up (self, w) =
           (True,
            \<lparr>access_token = Some tok, token_expiry = clock up (clock_reads w) + 14 * 60\<rparr>,
            w\<lparr>clock_reads := Suc (clock_reads w), calls := calls w @ [TokenExchange]\<rparr>) \<and>
         (\<forall>w' d acct.
            clock up (clock_reads w') < clock up (clock_reads w) + 14 * 60 \<longrightarrow>
            (\<exists>rest.
               calls (snd (snd (get_telemetry (Suc d) up acct
                 (\<lparr>access_token = Some tok,
                   token_expiry = clock up (clock_reads w) + 14 * 60\<rparr>, w')))) =
                 calls w' @ TelemetryPost (''Bearer '' @ tok) acct # rest \<and>
               (\<not> is_401 (telemetry_answers up (telemetry_posts w')) \<longrightarrow>
                  rest = [] \<and>
                  fst (snd (get_telemetry (Suc d) up acct
                    (\<lparr>access_token = Some tok,
                      token_expiry = clock up (clock_reads w) + 14 * 60\<rparr>, w'))) =
                    \<lparr>access_token = Some tok,
                     token_expiry = clock up (clock_reads w) + 14 * 60\<rparr>))) \<and>
         (\<forall>w' d acct tok'.
            clock up (clock_reads w') \<ge> clock up (clock_reads w) + 14 * 60 \<and>
            token_answers up (token_exchanges w') = Some tok' \<and> tok' \<noteq> [] \<longrightarrow>
            (\<exists>rest.
               calls (snd (snd (get_telemetry (Suc d) up acct
                 (\<lparr>access_token = Some tok,
                   token_expiry = clock up (clock_reads w) + 14 * 60\<rparr>, w')))) =
                 calls w' @ TokenExchange # TelemetryPost (''Bearer '' @ tok') acct # rest \<and>
               (\<not> is_401 (telemetry_answers up (telemetry_posts w')) \<longrightarrow>
                  rest = [] \<and>
                  fst (snd (get_telemetry (Suc d) up acct
                    (\<lparr>access_token = Some tok,
                      token_expiry = clock up (clock_reads w) + 14 * 60\<rparr>, w'))) =
                    \<lparr>access_token = Some tok',
                     token_expiry = clock up (clock_reads w') + 14 * 60\<rparr>)))"
proof (intro conjI allI impI)
  from got ne have tr: "truthy (token_answers up (token_exchanges w))"
    by (simp add: truthy_def)
  from ensure_token_acquire [OF due tr] got
  show "ensure_token up (self, w) =
          (True,
           \<lparr>access_token = Some tok, token_expiry = clock up (clock_reads w) + 14 * 60\<rparr>,
           w\<lparr>clock_reads := Suc (clock_reads w), calls := calls w @ [TokenExchange]\<rparr>)"
    by simp
next
  let ?cached = "\<lparr>access_token = Some tok, token_expiry = clock up (clock_reads w) + 14 * 60\<rparr>"
  fix w' :: world and d :: nat and acct :: string
  assume early: "clock up (clock_reads w') < clock up (clock_reads w) + 14 * 60"
  with ne have "\<not> token_due up (?cached, w')"
    by (simp add: token_due_def truthy_def)
  from fetch_cached [OF this, of d acct]
  show "\<exists>rest.
          calls (snd (snd (get_telemetry (Suc d) up acct (?cached, w')))) =
            calls w' @ TelemetryPost (''Bearer '' @ tok) acct # rest \<and>
          (\<not> is_401 (telemetry_answers up (telemetry_posts w')) \<longrightarrow>
             rest = [] \<and> fst (snd (get_telemetry (Suc d) up acct (?cached, w'))) = ?cached)"
    by (simp add: bearer_def)
next
  let ?cached = "\<lparr>access_token = Some tok, token_expiry = clock up (clock_reads w) + 14 * 60\<rparr>"
  fix w' :: world and d :: nat and acct tok' :: string
  assume late: "clock up (clock_reads w') \<ge> clock up (clock_reads w) + 14 * 60 \<and>
                token_answers up (token_exchanges w') = Some tok' \<and> tok' \<noteq> []"
  then have d2: "token_due up (?cached, w')" by (simp add: token_due_def)
  from late have t2: "truthy (token_answers up (token_exchanges w'))"
    by (simp add: truthy_def)
  from fetch_due [OF d2 t2, of d acct] late
  show "\<exists>rest.
          calls (snd (snd (get_telemetry (Suc d) up acct (?cached, w')))) =
            calls w' @ TokenExchange # TelemetryPost (''Bearer '' @ tok') acct # rest \<and>
          (\<not> is_401 (telemetry_answers up (telemetry_posts w')) \<longrightarrow>
             rest = [] \<and>
             fst (snd (get_telemetry (Suc d) up acct (?cached, w'))) =
               \<lparr>access_token = Some tok', token_expiry = clock up (clock_reads w') + 14 * 60\<rparr>)"
    by (simp add: bearer_def)
qed


definition vendor_ok :: upstream where
  "vendor_ok =
     \<lparr>clock = (\<lambda>n. if n = 0 then 1000 else if n = 1 then 1500 else 1840),
      token_answers = (\<lambda>n. if n = 0 then Some ''tok-a'' else Some ''tok-b''),
      telemetry_answers = (\<lambda>n. Answer 200 (Some empty_batch))\<rparr>"

definition world_after_token :: world where
  "world_after_token = \<lparr>clock_reads = 1, calls = [TokenExchange]\<rparr>"

definition world_after_fetch :: world where
  "world_after_fetch =
     \<lparr>clock_reads = 2, calls = [TokenExchange, TelemetryPost ''Bearer tok-a'' ''ACC-1'']\<rparr>"

theorem C7_token_cache_witness:
  "token_due vendor_ok (StarlinkAPI_init, world_init) \<and>
   ensure_token vendor_ok (StarlinkAPI_init, world_init) =
     (True, \<lparr>access_token = Some ''tok-a'', token_expiry = 1840\<rparr>, world_after_token) \<and>
   calls (snd (snd (get_telemetry (Suc 0) vendor_ok ''ACC-1''
     (\<lparr>access_token = Some ''tok-a'', token_expiry = 1840\<rparr>, world_after_token)))) =
     [TokenExchange, TelemetryPost ''Bearer tok-a'' ''ACC-1''] \<and>
   calls (snd (snd (get_telemetry (Suc 0) vendor_ok ''ACC-1''
     (\<lparr>access_token = Some ''tok-a'', token_expiry = 1840\<rparr>, world_after_fetch)))) =
     [TokenExchange, TelemetryPost ''Bearer tok-a'' ''ACC-1'',
      TokenExchange, TelemetryPost ''Bearer tok-b'' ''ACC-1'']"
proof -
  have h1: "token_due vendor_ok (StarlinkAPI_init, world_init)"
    by (simp add: token_due_def StarlinkAPI_init_def truthy_def)
  have h2: "token_answers vendor_ok (token_exchanges world_init) = Some ''tok-a''"
    by (simp add: vendor_ok_def token_exchanges_def world_init_def)
  have h3: "''tok-a'' \<noteq> []" by simp
  note c = C7_token_cache [OF h1 h2 h3]
  have t0: "clock vendor_ok 0 = 1000"
    by (simp add: vendor_ok_def)
  have cw1: "calls world_after_token = [TokenExchange]"
    by (simp add: world_after_token_def)
  have cw2: "calls world_after_fetch =
               [TokenExchange, TelemetryPost ''Bearer tok-a'' ''ACC-1'']"
    by (simp add: world_after_fetch_def)
  have n401: "\<not> is_401 (telemetry_answers vendor_ok n)" for n
    by (simp add: vendor_ok_def is_401_def)
  from c [THEN conjunct1] have a: "ensure_token vendor_ok (StarlinkAPI_init, world_init) =
      (True, \<lparr>access_token = Some ''tok-a'', token_expiry = 1840\<rparr>, world_after_token)"
    by (simp add: t0 world_init_def world_after_token_def)
  have early: "clock vendor_ok (clock_reads world_after_token) <
               clock vendor_ok (clock_reads world_init) + 14 * 60"
    by (simp add: vendor_ok_def world_init_def world_after_token_def)
  from c [THEN conjunct2, THEN conjunct1, rule_format, OF early, of 0 "''ACC-1''"] n401
  have b: "calls (snd (snd (get_telemetry (Suc 0) vendor_ok ''ACC-1''
      (\<lparr>access_token = Some ''tok-a'', token_expiry = 1840\<rparr>, world_after_token)))) =
      [TokenExchange, TelemetryPost ''Bearer tok-a'' ''ACC-1'']"
    by (auto simp: t0 world_init_def cw1 simp del: get_telemetry.simps)
  have late: "clock vendor_ok (clock_reads world_init) + 14 * 60 \<le>
                clock vendor_ok (clock_reads world_after_fetch) \<and>
              token_answers vendor_ok (token_exchanges world_after_fetch) = Some ''tok-b'' \<and>
              ''tok-b'' \<noteq> []"
    by (simp add: vendor_ok_def world_init_def world_after_fetch_def token_exchanges_def)
  from c [THEN conjunct2, THEN conjunct2, rule_format, OF late, of 0 "''ACC-1''"] n401
  have d: "calls (snd (snd (get_telemetry (Suc 0) vendor_ok ''ACC-1''
      (\<lparr>access_token = Some ''tok-a'', token_expiry = 1840\<rparr>, world_after_fetch)))) =
      [TokenExchange, TelemetryPost ''Bearer tok-a'' ''ACC-1'',
       TokenExchange, TelemetryPost ''Bearer tok-b'' ''ACC-1'']"
    by (auto simp: t0 world_init_def cw2 simp del: get_telemetry.simps)
  from h1 a b d show ?thesis by simp
qed

text \<open>
  Against C7 as worded: a fetch before the expiry whose request the vendor answers with
  401. The client holds the token acquired at 1000 (expiry 1840); at 1500 it sends the
  cached token, gets the 401, and exchanges a new token although the expiry has not come.
\<close>

definition vendor_revokes :: upstream where
  "vendor_revokes =
     \<lparr>clock = (\<lambda>n. 1500), token_answers = (\<lambda>n. Some ''tok-b''),
      telemetry_answers =
        (\<lambda>n. if n = 0 then Answer 401 None else Answer 200 (Some empty_batch))\<rparr>"

theorem C7_counterexample:
  "clock vendor_revokes (clock_reads world_after_token) < 1840 \<and>
   token_exchanges world_after_token = 1 \<and>
   get_telemetry (Suc (Suc 0)) vendor_revokes ''ACC-1''
     (\<lparr>access_token = Some ''tok-a'', token_expiry = 1840\<rparr>, world_after_token) =
     (Some empty_batch,
      \<lparr>access_token = Some ''tok-b'', token_expiry = 2340\<rparr>,
      \<lparr>clock_reads = 3,
       calls = [TokenExchange, TelemetryPost ''Bearer tok-a'' ''ACC-1'',
                TokenExchange, TelemetryPost ''Bearer tok-b'' ''ACC-1'']\<rparr>)"
  by (simp add: vendor_revokes_def world_after_token_def ensure_token_def
      get_starlink_access_token_def truthy_def token_exchanges_def telemetry_posts_def
      bearer_def raise_for_status_json_def Let_def)

section \<open>Properties of the decoder\<close>

text \<open>The discriminators Python can use as a dict key.\<close>

definition hashable :: "json \<Rightarrow> bool" where
  "hashable v = (case v of JArr xs \<Rightarrow> False | JObj kvs \<Rightarrow> False | _ \<Rightarrow> True)"

definition scalar_discriminators :: "json list list \<Rightarrow> bool" where
  "scalar_discriminators rows =
     list_all (\<lambda>row. case row of d # x # xs \<Rightarrow> hashable d | _ \<Rightarrow> True) rows"

text \<open>
  Every column-name list of the batch has 'DeviceType' at index 0 and no name twice, as
  the vendor's lists have.
\<close>

definition columns_wellformed :: "(string \<rightharpoonup> string list) \<Rightarrow> bool" where
  "columns_wellformed cn =
     (\<forall>t names. cn t = Some names \<longrightarrow> names \<noteq> [] \<longrightarrow>
        hd names = ''DeviceType'' \<and> distinct names)"

text \<open>
  The decoding rules in the specification's words: a row is kept when it has at least two
  elements and its discriminator has a column-name list of the row's length; a kept row
  becomes the positional pairing of the names with its values; a stream holds the
  records of the kept rows with its discriminator.
\<close>

definition spec_kept :: "(string \<rightharpoonup> string list) \<Rightarrow> json list \<Rightarrow> bool" where
  "spec_kept cn row =
     (2 \<le> length row \<and>
      (case row of
         JStr t # rest \<Rightarrow>
           (case cn t of Some names \<Rightarrow> length names = length row | None \<Rightarrow> False)
       | _ \<Rightarrow> False))"

definition spec_named_record :: "(string \<rightharpoonup> string list) \<Rightarrow> json list \<Rightarrow> row_dict" where
  "spec_named_record cn row =
     (case row of
        JStr t # rest \<Rightarrow> (case cn t of Some names \<Rightarrow> zip names row | None \<Rightarrow> [])
      | _ \<Rightarrow> [])"

definition discriminator_is :: "string \<Rightarrow> json list \<Rightarrow> bool" where
  "discriminator_is t row = (case row of d # rest \<Rightarrow> d = JStr t | [] \<Rightarrow> False)"

lemma update_fresh: "k \<notin> fst ` set al \<Longrightarrow> AList.update k v al = al @ [(k, v)]"
  by (induction al) auto

lemma foldl_update_zip:
  "distinct names \<Longrightarrow> set names \<inter> fst ` set acc = {} \<Longrightarrow>
   foldl (\<lambda>d (k, v). AList.update k v d) acc (zip names row) = acc @ zip names row"
proof (induction names arbitrary: acc row)
  case Nil
  then show ?case by simp
next
  case (Cons n names)
  show ?case
  proof (cases row)
    case Nil
    then show ?thesis by simp
  next
    case (Cons v vs)
    from Cons.prems have fresh: "n \<notin> fst ` set acc" by auto
    from Cons.prems have "set names \<inter> fst ` set (acc @ [(n, v)]) = {}" by auto
    with Cons.IH [of "acc @ [(n, v)]" vs] Cons.prems(1)
    have "foldl (\<lambda>d (k, v). AList.update k v d) (acc @ [(n, v)]) (zip names vs) =
            (acc @ [(n, v)]) @ zip names vs" by simp
    with fresh Cons show ?thesis by (simp add: update_fresh)
  qed
qed

lemma make_row_dict_distinct: "distinct names \<Longrightarrow> make_row_dict names row = zip names row"
  using foldl_update_zip [of names "[]" row] by (simp add: make_row_dict_def)

lemma process_rows_kept:
  assumes "columns_wellformed cn" and "scalar_discriminators rows"
  shows "process_rows cn rows = Inr (map (spec_named_record cn) (filter (spec_kept cn) rows))"
  using assms(2)
proof (induction rows)
  case Nil
  then show ?case by simp
next
  case (Cons row rows)
  then have IH: "process_rows cn rows = Inr (map (spec_named_record cn) (filter (spec_kept cn) rows))"
    by (simp add: scalar_discriminators_def)
  have skip: "process_rows cn (row # rows) = process_rows cn rows \<and> \<not> spec_kept cn row"
    if "\<not> spec_kept cn row"
  proof (cases row)
    case Nil
    then show ?thesis using that by simp
  next
    case outer: (Cons d tl1)
    show ?thesis
    proof (cases tl1)
      case Nil
      with outer show ?thesis using that by simp
    next
      case inner: (Cons x xs)
      from Cons.prems outer inner have h: "hashable d"
        by (simp add: scalar_discriminators_def)
      from that outer inner h show ?thesis
        by (cases d) (auto simp: spec_kept_def hashable_def get_column_names_def split: option.splits)
    qed
  qed
  show ?case
  proof (cases "spec_kept cn row")
    case False
    from skip [OF False] IH show ?thesis by simp
  next
    case True
    then obtain t x xs names where row: "row = JStr t # x # xs" and cn: "cn t = Some names"
      and len: "length names = length row"
      by (cases row; cases "tl row")
         (auto simp: spec_kept_def split: json.splits option.splits)
    from len row have ne: "names \<noteq> []" by auto
    with assms(1) cn have "distinct names"
      unfolding columns_wellformed_def by blast
    then have "make_row_dict names row = zip names row"
      by (rule make_row_dict_distinct)
    moreover have "spec_named_record cn row = zip names row"
      using row cn by (simp add: spec_named_record_def)
    ultimately have "process_rows cn (row # rows) =
        Inr (spec_named_record cn row # map (spec_named_record cn) (filter (spec_kept cn) rows))"
      using row cn len ne IH by (simp add: get_column_names_def)
    with True show ?thesis by simp
  qed
qed

lemma DeviceType_of_named_record:
  assumes "columns_wellformed cn" and "spec_kept cn row"
  shows "DeviceType_is t (spec_named_record cn row) = discriminator_is t row"
proof -
  from assms(2) obtain s rest names where row: "row = JStr s # rest" and cn: "cn s = Some names"
    and len: "length names = length row"
    by (auto simp: spec_kept_def split: list.splits json.splits option.splits)
  from len row obtain n ns where names: "names = n # ns" by (cases names) auto
  from assms(1) cn names have "hd names = ''DeviceType''"
    unfolding columns_wellformed_def by blast
  with names have "n = ''DeviceType''" by simp
  with row cn names show ?thesis
    by (simp add: DeviceType_is_def spec_named_record_def discriminator_is_def)
qed

lemma filter_streams:
  assumes "columns_wellformed cn"
  shows "filter (DeviceType_is t) (map (spec_named_record cn) (filter (spec_kept cn) rows)) =
         map (spec_named_record cn) (filter (\<lambda>row. spec_kept cn row \<and> discriminator_is t row) rows)"
  using DeviceType_of_named_record [OF assms]
  by (induction rows) auto


definition spec_stream :: "string \<Rightarrow> batch_data \<Rightarrow> row_dict list" where
  "spec_stream t data =
     map (spec_named_record (column_names_by_device_type data))
       (filter (\<lambda>row. spec_kept (column_names_by_device_type data) row \<and> discriminator_is t row)
          (values_of data))"

lemma get_stream_decoded:
  assumes wf: "columns_wellformed (column_names_by_device_type data)"
    and sc: "scalar_discriminators (values_of data)"
    and fetched: "fst (get_telemetry depth up acct sw) = Some td"
    and has_data: "payload_data td = Some data"
  shows "process_telemetry_data (Some td) =
           Inr (Some \<lparr>processed_data =
                        map (spec_named_record (column_names_by_device_type data))
                          (filter (spec_kept (column_names_by_device_type data)) (values_of data)),
                      processed_metadata =
                        (case payload_metadata td of None \<Rightarrow> JObj [] | Some m \<Rightarrow> m)\<rparr>)"
    and "fst (get_stream t depth up acct sw) = Inr (spec_stream t data)"
proof -
  from process_rows_kept [OF wf sc] has_data
  show p: "process_telemetry_data (Some td) =
           Inr (Some \<lparr>processed_data =
                        map (spec_named_record (column_names_by_device_type data))
                          (filter (spec_kept (column_names_by_device_type data)) (values_of data)),
                      processed_metadata =
                        (case payload_metadata td of None \<Rightarrow> JObj [] | Some m \<Rightarrow> m)\<rparr>)"
    by (simp add: process_telemetry_data_def)
  from has_data have nf: "\<not> payload_falsy td" by (simp add: payload_falsy_def)
  from fetched nf p filter_streams [OF wf, of t "values_of data"]
  show "fst (get_stream t depth up acct sw) = Inr (spec_stream t data)"
    by (simp add: get_stream_def Let_def spec_stream_def)
qed

text \<open>
  Claim C3, as amended. For a fetched payload with a 'data' object whose column-name
  lists start with 'DeviceType' and repeat no name, and whose rows have scalar
  discriminators: decoding succeeds; it drops the rows with fewer than two elements and
  the rows whose discriminator has no column-name list of the row's length, and turns each
  other row into the positional pairing of names and values; the user-terminal, router
  and IP-allocation streams hold the records of the rows with discriminator "u", "r" and
  "i", so a row with any other discriminator is in none of them. This holds when every
  row is dropped, too.
\<close>

theorem C3_decode:
  assumes "columns_wellformed (column_names_by_device_type data)"
    and "scalar_discriminators (values_of data)"
    and "fst (get_telemetry depth up acct sw) = Some td"
    and "payload_data td = Some data"
  shows "process_telemetry_data (Some td) =
           Inr (Some \<lparr>processed_data =
                        map (spec_named_record (column_names_by_device_type data))
                          (filter (spec_kept (column_names_by_device_type data)) (values_of data)),
                      processed_metadata =
                        (case payload_metadata td of None \<Rightarrow> JObj [] | Some m \<Rightarrow> m)\<rparr>) \<and>
         fst (get_user_terminal_telemetry depth up acct sw) = Inr (spec_stream ''u'' data) \<and>
         fst (get_router_telemetry depth up acct sw) = Inr (spec_stream ''r'' data) \<and>
         fst (get_ip_allocations depth up acct sw) = Inr (spec_stream ''i'' data)"
  using get_stream_decoded [OF assms]
  by (simp add: get_user_terminal_telemetry_def get_router_telemetry_def get_ip_allocations_def)

subsection \<open>Batches for the concrete instances\<close>

definition vendor_sends :: "telemetry_payload \<Rightarrow> upstream" where
  "vendor_sends p =
     \<lparr>clock = (\<lambda>n. 1000), token_answers = (\<lambda>n. Some ''tok''),
      telemetry_answers = (\<lambda>n. Answer 200 (Some p))\<rparr>"

definition batch_of :: "(string \<rightharpoonup> string list) \<Rightarrow> json list list \<Rightarrow> batch_data" where
  "batch_of cn rows = \<lparr>columnNamesByDeviceType = Some cn, value_rows = Some rows\<rparr>"

definition payload_of :: "batch_data \<Rightarrow> telemetry_payload" where
  "payload_of data = \<lparr>payload_data = Some data, payload_metadata = None\<rparr>"

definition example_batch :: batch_data where
  "example_batch =
     batch_of [''u'' \<mapsto> [''DeviceType'', ''X'', ''Y'']]
       [[JStr ''u'', JNum 1, JNum 2], [JStr ''u'', JNum 1], [JStr ''z'', JNum 1, JNum 2]]"

definition misfiled_batch :: batch_data where
  "misfiled_batch = batch_of [''z'' \<mapsto> [''X'', ''DeviceType'']] [[JStr ''z'', JStr ''u'']]"

definition unfiled_batch :: batch_data where
  "unfiled_batch = batch_of [''u'' \<mapsto> [''Type'', ''X'', ''Y'']] [[JStr ''u'', JNum 1, JNum 2]]"

definition repeated_batch :: batch_data where
  "repeated_batch =
     batch_of [''u'' \<mapsto> [''DeviceType'', ''X'', ''X'']] [[JStr ''u'', JNum 1, JNum 2]]"

lemma fetch_vendor_sends:
  "get_telemetry (Suc 0) (vendor_sends p) ''ACC-1'' (StarlinkAPI_init, world_init) =
     (Some p, \<lparr>access_token = Some ''tok'', token_expiry = 1840\<rparr>,
      \<lparr>clock_reads = 1, calls = [TokenExchange, TelemetryPost ''Bearer tok'' ''ACC-1'']\<rparr>)"
  by (simp add: vendor_sends_def StarlinkAPI_init_def world_init_def ensure_token_def
      get_starlink_access_token_def truthy_def token_exchanges_def telemetry_posts_def
      bearer_def raise_for_status_json_def Let_def)

lemmas decode_defs =
  get_user_terminal_telemetry_def get_router_telemetry_def get_ip_allocations_def
  get_stream_def payload_falsy_def payload_of_def batch_of_def process_telemetry_data_def
  column_names_by_device_type_def values_of_def get_column_names_def make_row_dict_def
  DeviceType_is_def Let_def

text \<open>
  Against C3 as worded. The streams are filled by the field 'DeviceType' of the decoded
  record, not by the discriminator: a row of type "z" whose second column is named
  'DeviceType' lands in the user-terminal stream; a row of type "u" whose column list has
  no 'DeviceType' lands in no stream; and a column name that occurs twice keeps the later
  value only.
\<close>

theorem C3_counterexample:
  "fst (get_user_terminal_telemetry (Suc 0) (vendor_sends (payload_of misfiled_batch)) ''ACC-1''
         (StarlinkAPI_init, world_init)) =
     Inr [[(''X'', JStr ''z''), (''DeviceType'', JStr ''u'')]] \<and>
   spec_stream ''u'' misfiled_batch = [] \<and>
   fst (get_user_terminal_telemetry (Suc 0) (vendor_sends (payload_of unfiled_batch)) ''ACC-1''
         (StarlinkAPI_init, world_init)) = Inr [] \<and>
   spec_stream ''u'' unfiled_batch =
     [[(''Type'', JStr ''u''), (''X'', JNum 1), (''Y'', JNum 2)]] \<and>
   fst (get_user_terminal_telemetry (Suc 0) (vendor_sends (payload_of repeated_batch)) ''ACC-1''
         (StarlinkAPI_init, world_init)) =
     Inr [[(''DeviceType'', JStr ''u''), (''X'', JNum 2)]] \<and>
   spec_stream ''u'' repeated_batch =
     [[(''DeviceType'', JStr ''u''), (''X'', JNum 1), (''X'', JNum 2)]]"
  by (simp add: decode_defs fetch_vendor_sends misfiled_batch_def unfiled_batch_def
      repeated_batch_def spec_stream_def spec_kept_def spec_named_record_def
      discriminator_is_def del: get_telemetry.simps)

theorem C3_decode_witness:
  "fst (get_user_terminal_telemetry (Suc 0) (vendor_sends (payload_of example_batch)) ''ACC-1''
         (StarlinkAPI_init, world_init)) =
     Inr [[(''DeviceType'', JStr ''u''), (''X'', JNum 1), (''Y'', JNum 2)]] \<and>
   fst (get_router_telemetry (Suc 0) (vendor_sends (payload_of example_batch)) ''ACC-1''
         (StarlinkAPI_init, world_init)) = Inr [] \<and>
   fst (get_ip_allocations (Suc 0) (vendor_sends (payload_of example_batch)) ''ACC-1''
         (StarlinkAPI_init, world_init)) = Inr []"
proof -
  have cn: "column_names_by_device_type example_batch = [''u'' \<mapsto> [''DeviceType'', ''X'', ''Y'']]"
    by (simp add: column_names_by_device_type_def example_batch_def batch_of_def)
  have vs: "values_of example_batch =
      [[JStr ''u'', JNum 1, JNum 2], [JStr ''u'', JNum 1], [JStr ''z'', JNum 1, JNum 2]]"
    by (simp add: values_of_def example_batch_def batch_of_def)
  have h1: "columns_wellformed (column_names_by_device_type example_batch)"
    unfolding cn by (auto simp: columns_wellformed_def split: if_splits)
  have h2: "scalar_discriminators (values_of example_batch)"
    unfolding vs by (simp add: scalar_discriminators_def hashable_def)
  have h3: "fst (get_telemetry (Suc 0) (vendor_sends (payload_of example_batch)) ''ACC-1''
              (StarlinkAPI_init, world_init)) = Some (payload_of example_batch)"
    by (simp only: fetch_vendor_sends fst_conv)
  have h4: "payload_data (payload_of example_batch) = Some example_batch"
    by (simp add: payload_of_def)
  have s: "spec_stream ''u'' example_batch =
             [[(''DeviceType'', JStr ''u''), (''X'', JNum 1), (''Y'', JNum 2)]]"
    "spec_stream ''r'' example_batch = []" "spec_stream ''i'' example_batch = []"
    unfolding spec_stream_def cn vs
    by (simp_all add: spec_kept_def spec_named_record_def discriminator_is_def)
  from C3_decode [OF h1 h2 h3 h4] show ?thesis by (simp only: s)
qed

section \<open>Properties of the telemetry routes\<close>

subsection \<open>Sync\<close>

lemma DeviceType_is_exclusive:
  "DeviceType_is s row \<Longrightarrow> DeviceType_is t row \<Longrightarrow> s = t"
  by (simp add: DeviceType_is_def)

lemma count_rows_lengths:
  "count_rows c rows =
     \<lparr>user_terminal_count = user_terminal_count c + length (filter (DeviceType_is ''u'') rows),
      router_count = router_count c + length (filter (DeviceType_is ''r'') rows),
      ip_allocation_count = ip_allocation_count c + length (filter (DeviceType_is ''i'') rows)\<rparr>"
proof (induction rows arbitrary: c)
  case Nil
  then show ?case by simp
next
  case (Cons row rows)
  have ur: "DeviceType_is ''u'' row \<Longrightarrow> \<not> DeviceType_is ''r'' row \<and> \<not> DeviceType_is ''i'' row"
    and ri: "DeviceType_is ''r'' row \<Longrightarrow> \<not> DeviceType_is ''i'' row"
    using DeviceType_is_exclusive [of _ row] by fastforce+
  show ?case
    using ur ri by (simp add: Cons.IH)
qed

text \<open>Telemetry tables for the concrete instances.\<close>

definition example_tdb :: telemetry_db where
  "example_tdb =
     \<lparr>devices = [\<lparr>Device_id = ''d1'', Device_organization_id = ''o1''\<rparr>,
                 \<lparr>Device_id = ''d2'', Device_organization_id = ''o1''\<rparr>,
                 \<lparr>Device_id = ''d3'', Device_organization_id = ''o2''\<rparr>],
      user_terminal_telemetry =
        [\<lparr>UserTerminalTelemetry_time = 1000, UserTerminalTelemetry_device_id = ''d1'',
          downlink_throughput = Some 10, uplink_throughput = Some 2,
          ping_latency_ms_avg = Some 40, ping_drop_rate_avg = None,
          obstruction_percent_time = None, signal_quality = Some 1\<rparr>],
      router_telemetry =
        [\<lparr>RouterTelemetry_time = 1000, RouterTelemetry_device_id = ''d1'',
          wan_tx_bytes = Some 100, wan_rx_bytes = Some 200\<rparr>,
         \<lparr>RouterTelemetry_time = 2000, RouterTelemetry_device_id = ''d2'',
          wan_tx_bytes = Some 10, wan_rx_bytes = None\<rparr>,
         \<lparr>RouterTelemetry_time = 3000, RouterTelemetry_device_id = ''d3'',
          wan_tx_bytes = Some 1, wan_rx_bytes = Some 2\<rparr>],
      ip_allocations = []\<rparr>"

text \<open>
  Claim C10. For every request body and every upstream, POST /telemetry/sync hands the
  telemetry tables (devices, user-terminal and router telemetry, IP allocations) back as
  it received them; a successful reply carries, per stream, the number of decoded rows
  whose 'DeviceType' is "u", "r" and "i".
\<close>

theorem C10_sync_inserts_nothing:
  "fst (snd (sync_telemetry depth up body (db, w))) = db \<and>
   (\<forall>counts msg.
      fst (sync_telemetry depth up body (db, w)) = Success_response counts msg 200 \<longrightarrow>
      (\<exists>account decoded.
         body = Some (Some account) \<and>
         process_telemetry_data (fst (get_telemetry depth up account (StarlinkAPI_init, w))) =
           Inr (Some decoded) \<and>
         counts =
           \<lparr>user_terminal_count = length (filter (DeviceType_is ''u'') (processed_data decoded)),
            router_count = length (filter (DeviceType_is ''r'') (processed_data decoded)),
            ip_allocation_count =
              length (filter (DeviceType_is ''i'') (processed_data decoded))\<rparr>))"
proof (intro conjI allI impI)
  show "fst (snd (sync_telemetry depth up body (db, w))) = db"
    by (simp add: sync_telemetry_def Let_def split: option.splits sum.splits)
next
  fix counts :: sync_counts and msg :: "string option"
  assume ok: "fst (sync_telemetry depth up body (db, w)) = Success_response counts msg 200"
  then obtain account where b: "body = Some (Some account)" and ne: "account \<noteq> []"
    by (auto simp: sync_telemetry_def Let_def truthy_def split: option.splits if_splits)
  let ?fetched = "get_telemetry depth up account (StarlinkAPI_init, w)"
  from ok b ne obtain td where f: "fst ?fetched = Some td"
    by (auto simp: sync_telemetry_def Let_def truthy_def split: option.splits)
  from ok b ne f obtain decoded where p: "process_telemetry_data (Some td) = Inr (Some decoded)"
    by (auto simp: sync_telemetry_def Let_def truthy_def split: option.splits sum.splits if_splits)
  from ok b ne f p have "counts =
      count_rows \<lparr>user_terminal_count = 0, router_count = 0, ip_allocation_count = 0\<rparr>
        (processed_data decoded)"
    by (auto simp: sync_telemetry_def Let_def truthy_def split: if_splits)
  with b f p
  show "\<exists>account decoded.
         body = Some (Some account) \<and>
         process_telemetry_data (fst (get_telemetry depth up account (StarlinkAPI_init, w))) =
           Inr (Some decoded) \<and>
         counts =
           \<lparr>user_terminal_count = length (filter (DeviceType_is ''u'') (processed_data decoded)),
            router_count = length (filter (DeviceType_is ''r'') (processed_data decoded)),
            ip_allocation_count =
              length (filter (DeviceType_is ''i'') (processed_data decoded))\<rparr>"
    by (simp add: count_rows_lengths)
qed

theorem C10_sync_inserts_nothing_witness:
  "sync_telemetry (Suc 0) (vendor_sends (payload_of example_batch)) (Some (Some ''ACC-1''))
     (example_tdb, world_init) =
     (Success_response
        \<lparr>user_terminal_count = 1, router_count = 0, ip_allocation_count = 0\<rparr>
        (Some ''Telemetry data synced successfully'') 200,
      example_tdb,
      \<lparr>clock_reads = 1, calls = [TokenExchange, TelemetryPost ''Bearer tok'' ''ACC-1'']\<rparr>)"
proof -
  let ?run = "sync_telemetry (Suc 0) (vendor_sends (payload_of example_batch))
                (Some (Some ''ACC-1'')) (example_tdb, world_init)"
  have r: "fst ?run =
      Success_response \<lparr>user_terminal_count = 1, router_count = 0, ip_allocation_count = 0\<rparr>
        (Some ''Telemetry data synced successfully'') 200"
    and w: "snd (snd ?run) =
      \<lparr>clock_reads = 1, calls = [TokenExchange, TelemetryPost ''Bearer tok'' ''ACC-1'']\<rparr>"
    by (simp_all add: sync_telemetry_def truthy_def fetch_vendor_sends decode_defs
        example_batch_def del: get_telemetry.simps)
  from C10_sync_inserts_nothing [of "Suc 0" "vendor_sends (payload_of example_batch)"
      "Some (Some ''ACC-1'')" example_tdb world_init]
  have "fst (snd ?run) = example_tdb" by blast
  with r w show ?thesis by (simp add: prod_eq_iff)
qed

subsection \<open>Usage and performance statistics\<close>

text \<open>
  The scoping in the specification's words: a row counts when its time lies in the window
  and it passes the device filter (if one is given); the total of an organization is the
  sum, over every device of the organization, of that device's rows.
\<close>

definition in_window :: "int \<Rightarrow> int \<Rightarrow> int \<Rightarrow> bool" where
  "in_window start_time end_time t = (start_time \<le> t \<and> t \<le> end_time)"

definition device_matches :: "string option \<Rightarrow> string \<Rightarrow> bool" where
  "device_matches device_id d = (\<not> truthy device_id \<or> device_id = Some d)"

definition org_devices :: "Device list \<Rightarrow> string \<Rightarrow> Device list" where
  "org_devices devs org = filter (\<lambda>dev. Device_organization_id dev = org) devs"

definition device_total ::
  "telemetry_db \<Rightarrow> (RouterTelemetry \<Rightarrow> int option) \<Rightarrow> string option \<Rightarrow> int \<Rightarrow> int \<Rightarrow>
   Device \<Rightarrow> int" where
  "device_total db col device_id start_time end_time dev =
     sum_list (map (\<lambda>rt. or_0 (col rt))
       (filter (\<lambda>rt. RouterTelemetry_device_id rt = Device_id dev \<and>
                      device_matches device_id (RouterTelemetry_device_id rt) \<and>
                      in_window start_time end_time (RouterTelemetry_time rt))
          (router_telemetry db)))"

definition organization_total ::
  "telemetry_db \<Rightarrow> (RouterTelemetry \<Rightarrow> int option) \<Rightarrow> string option \<Rightarrow> string \<Rightarrow>
   int \<Rightarrow> int \<Rightarrow> int" where
  "organization_total db col device_id org start_time end_time =
     sum_list (map (device_total db col device_id start_time end_time)
       (org_devices (devices db) org))"

lemma device_total_fun:
  "device_total db col device_id start_time end_time =
     (\<lambda>dev. sum_list (map (\<lambda>rt. or_0 (col rt))
        (filter (\<lambda>rt. RouterTelemetry_device_id rt = Device_id dev \<and>
                       device_matches device_id (RouterTelemetry_device_id rt) \<and>
                       in_window start_time end_time (RouterTelemetry_time rt))
           (router_telemetry db))))"
  by (rule ext) (simp add: device_total_def)

lemma or_0_sql_sum: "or_0 (sql_sum xs) = sum_list (map or_0 xs)"
proof -
  define vs where "vs = concat (map (\<lambda>x. case x of None \<Rightarrow> [] | Some v \<Rightarrow> [v]) xs)"
  have s: "sum_list vs = sum_list (map or_0 xs)"
    unfolding vs_def by (induction xs) (auto simp: or_0_def split: option.splits)
  have "or_0 (sql_sum xs) = sum_list vs"
    unfolding sql_sum_def vs_def [symmetric] by (cases vs) (simp_all add: or_0_def)
  with s show ?thesis by simp
qed

lemma sum_list_swap:
  fixes g :: "'a \<Rightarrow> 'b \<Rightarrow> int"
  shows "sum_list (map (\<lambda>x. sum_list (map (g x) ys)) xs) =
         sum_list (map (\<lambda>y. sum_list (map (\<lambda>x. g x y) xs)) ys)"
proof (induction xs)
  case Nil
  then show ?case by simp
next
  case (Cons x xs)
  then show ?case by (simp add: sum_list_addf)
qed

lemma sum_list_filter_if:
  fixes f :: "'a \<Rightarrow> int"
  shows "sum_list (map f (filter P xs)) = sum_list (map (\<lambda>x. if P x then f x else 0) xs)"
  by (induction xs) auto

lemma filter_join:
  "filter W (concat (map (\<lambda>row. map (\<lambda>dev. row) (filter (J row) devs)) rows)) =
   concat (map (\<lambda>row. map (\<lambda>dev. row) (filter (J row) devs)) (filter W rows))"
  by (induction rows) auto

lemma sum_join:
  fixes f :: "'r \<Rightarrow> int"
  shows "sum_list (map f (concat (map (\<lambda>row. map (\<lambda>dev. row) (filter (J row) devs)) rows))) =
         sum_list (map (\<lambda>dev. sum_list (map f (filter (\<lambda>row. J row dev) rows))) devs)"
proof -
  have "sum_list (map f (concat (map (\<lambda>row. map (\<lambda>dev. row) (filter (J row) devs)) rows))) =
        sum_list (map (\<lambda>row. sum_list (map (\<lambda>dev. if J row dev then f row else 0) devs)) rows)"
    by (induction rows) (auto simp: sum_list_filter_if comp_def)
  also have "\<dots> = sum_list (map (\<lambda>dev. sum_list (map (\<lambda>row. if J row dev then f row else 0) rows)) devs)"
    by (rule sum_list_swap)
  also have "\<dots> = sum_list (map (\<lambda>dev. sum_list (map f (filter (\<lambda>row. J row dev) rows))) devs)"
    by (simp add: sum_list_filter_if)
  finally show ?thesis .
qed


lemma scoped_query_organization_sum:
  fixes f :: "'r \<Rightarrow> int"
  assumes "org \<noteq> []"
  shows "sum_list (map f (scoped_query row_device_id row_time devs table device_id (Some org)
                            start_time end_time)) =
         sum_list (map (\<lambda>dev. sum_list (map f
             (filter (\<lambda>row. row_device_id row = Device_id dev \<and>
                             device_matches device_id (row_device_id row) \<and>
                             in_window start_time end_time (row_time row)) table)))
           (org_devices devs org))"
proof -
  let ?W = "\<lambda>row. start_time \<le> row_time row \<and> row_time row \<le> end_time"
  let ?D = "\<lambda>row. device_matches device_id (row_device_id row)"
  let ?J = "\<lambda>row dev. Device_id dev = row_device_id row \<and> Device_organization_id dev = org"
  have q1: "(case device_id of
               Some d \<Rightarrow> if d \<noteq> [] then filter (\<lambda>row. row_device_id row = d) table else table
             | None \<Rightarrow> table) = filter ?D table"
    by (auto simp: device_matches_def truthy_def split: option.splits intro!: filter_cong)
  have "sum_list (map f (scoped_query row_device_id row_time devs table device_id (Some org)
                            start_time end_time)) =
        sum_list (map f (concat (map (\<lambda>row. map (\<lambda>dev. row) (filter (?J row) devs))
                                   (filter ?W (filter ?D table)))))"
    using assms by (simp add: scoped_query_def q1 filter_join Let_def)
  also have "\<dots> = sum_list (map (\<lambda>dev. sum_list (map f
                 (filter (\<lambda>row. ?J row dev) (filter ?W (filter ?D table))))) devs)"
    by (rule sum_join)
  also have "\<dots> = sum_list (map (\<lambda>dev. if Device_organization_id dev = org
                 then sum_list (map f (filter (\<lambda>row. row_device_id row = Device_id dev \<and>
                        ?D row \<and> in_window start_time end_time (row_time row)) table))
                 else 0) devs)"
    by (rule arg_cong [where f = sum_list], rule map_cong [OF refl])
       (auto simp: in_window_def intro!: arg_cong [where f = sum_list]
          arg_cong [where f = "map f"] filter_cong)
  also have "\<dots> = sum_list (map (\<lambda>dev. sum_list (map f
             (filter (\<lambda>row. row_device_id row = Device_id dev \<and> ?D row \<and>
                             in_window start_time end_time (row_time row)) table)))
           (org_devices devs org))"
    unfolding org_devices_def by (rule sum_list_filter_if [symmetric])
  finally show ?thesis .
qed

lemma scoped_query_device_only:
  assumes "\<not> truthy organization_id"
  shows "scoped_query row_device_id row_time devs table device_id organization_id
           start_time end_time =
         filter (\<lambda>row. device_matches device_id (row_device_id row) \<and>
                        in_window start_time end_time (row_time row)) table"
  using assms
  by (auto simp: scoped_query_def device_matches_def truthy_def in_window_def Let_def
      split: option.splits intro!: filter_cong)

lemma scoped_query_organization_set:
  assumes "org \<noteq> []"
  shows "set (scoped_query row_device_id row_time devs table device_id (Some org)
                start_time end_time) =
         {row \<in> set table.
            device_matches device_id (row_device_id row) \<and>
            in_window start_time end_time (row_time row) \<and>
            (\<exists>dev \<in> set (org_devices devs org). Device_id dev = row_device_id row)}"
  using assms
  by (auto simp: scoped_query_def device_matches_def truthy_def in_window_def org_devices_def
      Let_def split: option.splits)


text \<open>
  Claim C8, as amended. GetUsage and GetPerformance require at least one of device_id and
  organization_id: a request with neither is answered 400. With at least one of them and
  a valid period both handlers answer 200; a request with both is accepted and both
  filters apply. When organization_id is given the usage sums are the totals over every
  device of that organization (the join gives what a fan-out over its devices would),
  and the performance averages are taken over the in-window rows of the organization's
  devices; without it the rows of the given device are aggregated.
\<close>

theorem C8_scoping:
  "(\<not> truthy d \<and> \<not> truthy org \<longrightarrow>
      get_usage_stats db now
        \<lparr>arg_device_id = d, arg_organization_id = org, arg_period = p\<rparr> =
        Error_response ''Either device_id or organization_id is required'' 400 \<and>
      get_performance_stats avg_round db now
        \<lparr>arg_device_id = d, arg_organization_id = org, arg_period = p\<rparr> =
        Error_response ''Either device_id or organization_id is required'' 400) \<and>
   ((truthy d \<or> truthy org) \<and>
    period_start (case p of None \<Rightarrow> ''day'' | Some x \<Rightarrow> x) now = Some start_time \<longrightarrow>
      (\<exists>u pf.
         get_usage_stats db now
           \<lparr>arg_device_id = d, arg_organization_id = org, arg_period = p\<rparr> =
           Success_response u None 200 \<and>
         get_performance_stats avg_round db now
           \<lparr>arg_device_id = d, arg_organization_id = org, arg_period = p\<rparr> =
           Success_response pf None 200 \<and>
         avg_downlink_throughput pf =
           avg_round (map downlink_throughput (performance_rows db d org start_time now)) 2 \<and>
         (\<forall>oid. org = Some oid \<and> oid \<noteq> [] \<longrightarrow>
            upload_bytes u = organization_total db wan_tx_bytes d oid start_time now \<and>
            download_bytes u = organization_total db wan_rx_bytes d oid start_time now \<and>
            set (performance_rows db d org start_time now) =
              {ut \<in> set (user_terminal_telemetry db).
                 device_matches d (UserTerminalTelemetry_device_id ut) \<and>
                 in_window start_time now (UserTerminalTelemetry_time ut) \<and>
                 (\<exists>dev \<in> set (org_devices (devices db) oid).
                    Device_id dev = UserTerminalTelemetry_device_id ut)}) \<and>
         (\<not> truthy org \<longrightarrow>
            upload_bytes u =
              sum_list (map (\<lambda>rt. or_0 (wan_tx_bytes rt))
                (filter (\<lambda>rt. device_matches d (RouterTelemetry_device_id rt) \<and>
                               in_window start_time now (RouterTelemetry_time rt))
                   (router_telemetry db))) \<and>
            performance_rows db d org start_time now =
              filter (\<lambda>ut. device_matches d (UserTerminalTelemetry_device_id ut) \<and>
                            in_window start_time now (UserTerminalTelemetry_time ut))
                (user_terminal_telemetry db))))"
proof (intro conjI impI)
  assume "\<not> truthy d \<and> \<not> truthy org"
  then show "get_usage_stats db now
        \<lparr>arg_device_id = d, arg_organization_id = org, arg_period = p\<rparr> =
        Error_response ''Either device_id or organization_id is required'' 400"
    by (simp add: get_usage_stats_def)
next
  assume "\<not> truthy d \<and> \<not> truthy org"
  then show "get_performance_stats avg_round db now
        \<lparr>arg_device_id = d, arg_organization_id = org, arg_period = p\<rparr> =
        Error_response ''Either device_id or organization_id is required'' 400"
    by (simp add: get_performance_stats_def)
next
  let ?args = "\<lparr>arg_device_id = d, arg_organization_id = org, arg_period = p\<rparr>"
  let ?rows = "usage_rows db d org start_time now"
  let ?u = "\<lparr>usage_period = (case p of None \<Rightarrow> ''day'' | Some x \<Rightarrow> x),
             usage_start_time = start_time, usage_end_time = now,
             upload_bytes = or_0 (sql_sum (map wan_tx_bytes ?rows)),
             download_bytes = or_0 (sql_sum (map wan_rx_bytes ?rows)),
             total_bytes = or_0 (sql_sum (map wan_tx_bytes ?rows)) +
                           or_0 (sql_sum (map wan_rx_bytes ?rows))\<rparr>"
  assume a: "(truthy d \<or> truthy org) \<and>
             period_start (case p of None \<Rightarrow> ''day'' | Some x \<Rightarrow> x) now = Some start_time"
  then have us: "get_usage_stats db now ?args = Success_response ?u None 200"
    by (auto simp: get_usage_stats_def Let_def)
  from a obtain pf where pf: "get_performance_stats avg_round db now ?args =
      Success_response pf None 200"
    and dl: "avg_downlink_throughput pf =
      avg_round (map downlink_throughput (performance_rows db d org start_time now)) 2"
    by (auto simp: get_performance_stats_def Let_def)
  have col: "or_0 (sql_sum (map c rows)) = sum_list (map (\<lambda>rt. or_0 (c rt)) rows)"
    for c :: "RouterTelemetry \<Rightarrow> int option" and rows
    by (simp add: or_0_sql_sum comp_def)
  have org_part: "upload_bytes ?u = organization_total db wan_tx_bytes d oid start_time now \<and>
      download_bytes ?u = organization_total db wan_rx_bytes d oid start_time now \<and>
      set (performance_rows db d org start_time now) =
        {ut \<in> set (user_terminal_telemetry db).
           device_matches d (UserTerminalTelemetry_device_id ut) \<and>
           in_window start_time now (UserTerminalTelemetry_time ut) \<and>
           (\<exists>dev \<in> set (org_devices (devices db) oid).
              Device_id dev = UserTerminalTelemetry_device_id ut)}"
    if o: "org = Some oid \<and> oid \<noteq> []" for oid
  proof -
    from o have ne: "oid \<noteq> []" and eq: "org = Some oid" by simp_all
    show ?thesis
      unfolding eq
      by (simp add: col usage_rows_def performance_rows_def organization_total_def
          device_total_fun scoped_query_organization_sum [OF ne]
          scoped_query_organization_set [OF ne])
  qed
  have dev_part: "upload_bytes ?u =
        sum_list (map (\<lambda>rt. or_0 (wan_tx_bytes rt))
          (filter (\<lambda>rt. device_matches d (RouterTelemetry_device_id rt) \<and>
                         in_window start_time now (RouterTelemetry_time rt))
             (router_telemetry db))) \<and>
      performance_rows db d org start_time now =
        filter (\<lambda>ut. device_matches d (UserTerminalTelemetry_device_id ut) \<and>
                      in_window start_time now (UserTerminalTelemetry_time ut))
          (user_terminal_telemetry db)"
    if "\<not> truthy org"
    using that
    by (simp add: col usage_rows_def performance_rows_def scoped_query_device_only)
  from us pf dl org_part dev_part
  show "\<exists>u pf.
         get_usage_stats db now ?args = Success_response u None 200 \<and>
         get_performance_stats avg_round db now ?args = Success_response pf None 200 \<and>
         avg_downlink_throughput pf =
           avg_round (map downlink_throughput (performance_rows db d org start_time now)) 2 \<and>
         (\<forall>oid. org = Some oid \<and> oid \<noteq> [] \<longrightarrow>
            upload_bytes u = organization_total db wan_tx_bytes d oid start_time now \<and>
            download_bytes u = organization_total db wan_rx_bytes d oid start_time now \<and>
            set (performance_rows db d org start_time now) =
              {ut \<in> set (user_terminal_telemetry db).
                 device_matches d (UserTerminalTelemetry_device_id ut) \<and>
                 in_window start_time now (UserTerminalTelemetry_time ut) \<and>
                 (\<exists>dev \<in> set (org_devices (devices db) oid).
                    Device_id dev = UserTerminalTelemetry_device_id ut)}) \<and>
         (\<not> truthy org \<longrightarrow>
            upload_bytes u =
              sum_list (map (\<lambda>rt. or_0 (wan_tx_bytes rt))
                (filter (\<lambda>rt. device_matches d (RouterTelemetry_device_id rt) \<and>
                               in_window start_time now (RouterTelemetry_time rt))
                   (router_telemetry db))) \<and>
            performance_rows db d org start_time now =
              filter (\<lambda>ut. device_matches d (UserTerminalTelemetry_device_id ut) \<and>
                            in_window start_time now (UserTerminalTelemetry_time ut))
                (user_terminal_telemetry db))"
    by (intro exI [of _ ?u] exI [of _ pf]) blast
qed


text \<open>
  Against C8 as worded: a request that supplies both device_id and organization_id is
  accepted by both handlers, and answered for the rows that pass both filters.
\<close>

theorem C8_counterexample:
  "get_usage_stats example_tdb 5000
     \<lparr>arg_device_id = Some ''d1'', arg_organization_id = Some ''o1'', arg_period = None\<rparr> =
     Success_response
       \<lparr>usage_period = ''day'', usage_start_time = - 86399995000, usage_end_time = 5000,
        upload_bytes = 100, download_bytes = 200, total_bytes = 300\<rparr> None 200 \<and>
   get_performance_stats (\<lambda>column digits. (column, digits)) example_tdb 5000
     \<lparr>arg_device_id = Some ''d1'', arg_organization_id = Some ''o1'', arg_period = None\<rparr> =
     Success_response
       \<lparr>performance_period = ''day'', performance_start_time = - 86399995000,
        performance_end_time = 5000,
        avg_downlink_throughput = ([Some 10], 2), avg_uplink_throughput = ([Some 2], 2),
        avg_ping_latency = ([Some 40], 2), avg_ping_drop_rate = ([None], 4),
        avg_obstruction_percent = ([None], 2), avg_signal_quality = ([Some 1], 2)\<rparr> None 200"
  by (simp add: get_usage_stats_def get_performance_stats_def truthy_def period_start_def
      microseconds_per_day_def usage_rows_def performance_rows_def scoped_query_def
      example_tdb_def sql_sum_def or_0_def Let_def)

theorem C8_scoping_witness:
  "(\<exists>u. get_usage_stats example_tdb 5000
          \<lparr>arg_device_id = None, arg_organization_id = Some ''o1'',
           arg_period = Some ''week''\<rparr> = Success_response u None 200 \<and>
        upload_bytes u = 110 \<and> download_bytes u = 200) \<and>
   get_usage_stats example_tdb 5000
     \<lparr>arg_device_id = None, arg_organization_id = Some [], arg_period = None\<rparr> =
     Error_response ''Either device_id or organization_id is required'' 400"
proof -
  note c = C8_scoping [of None "Some ''o1''" example_tdb 5000 "Some ''week''"
      "\<lambda>column digits. (column, digits)" "5000 - 7 * microseconds_per_day"]
  note e = C8_scoping [of None "Some []" example_tdb 5000 None
      "\<lambda>column digits. (column, digits)" 0]
  have h: "(truthy None \<or> truthy (Some ''o1'')) \<and>
           period_start (case Some ''week'' of None \<Rightarrow> ''day'' | Some x \<Rightarrow> x) 5000 =
             Some (5000 - 7 * microseconds_per_day)"
    by (simp add: truthy_def period_start_def)
  have n: "\<not> truthy None \<and> \<not> truthy (Some [])"
    by (simp add: truthy_def)
  have tx: "organization_total example_tdb wan_tx_bytes None ''o1''
              (5000 - 7 * microseconds_per_day) 5000 = 110"
    and rx: "organization_total example_tdb wan_rx_bytes None ''o1''
              (5000 - 7 * microseconds_per_day) 5000 = 200"
    by (simp_all add: organization_total_def device_total_def org_devices_def
        device_matches_def truthy_def in_window_def microseconds_per_day_def or_0_def
        example_tdb_def)
  from c [THEN conjunct2, rule_format, OF h] obtain u where
    "get_usage_stats example_tdb 5000
       \<lparr>arg_device_id = None, arg_organization_id = Some ''o1'',
        arg_period = Some ''week''\<rparr> = Success_response u None 200"
    and "upload_bytes u = organization_total example_tdb wan_tx_bytes None ''o1''
           (5000 - 7 * microseconds_per_day) 5000"
    and "download_bytes u = organization_total example_tdb wan_rx_bytes None ''o1''
           (5000 - 7 * microseconds_per_day) 5000"
    by blast
  with tx rx e [THEN conjunct1, rule_format, OF n] show ?thesis by auto
qed

section \<open>Properties of the registration\<close>

text \<open>
  The route's constructor call names the keyword \<open>password_hash\<close>, which
  \<open>User.__init__\<close> does not have: the call raises for every request.
\<close>

lemma User_init_of_register:
  "User_init env
     [(''email'', e), (''password_hash'', h), (''first_name'', f), (''last_name'', l),
      (''phone'', p)] = Inl TypeError"
  by (simp add: User_init_def)

lemma register_fresh_email:
  assumes "data_email data \<notin> set (map User_email (users (committed s)))"
  shows "register env (Inr data) s =
           (Error_response ''An error occurred during registration'' 500, session_rollback s)"
proof -
  from assms
  have "find (\<lambda>u. User_email u = data_email data) (users (committed s)) = None"
    by (force simp: find_None_iff)
  then show ?thesis by (simp add: register_def User_init_of_register)
qed


text \<open>
  The writes themselves are not one unit of work. Given a row object, a first commit
  that goes through and the role 'Client', the second commit raises (the UserRole has no
  organization_id), the rollback drops the pending UserRole only, and the user row stays
  committed with the reply 500.
\<close>

lemma register_store_keeps_user:
  assumes "storage_ok env (commits s)" and "pending s = []"
    and "User_email new_user \<notin> set (map User_email (users (committed s)))"
    and "User_id new_user \<notin> set (map User_id (users (committed s)))"
    and "list_ex (\<lambda>r. Role_name r = ''Client'') (roles (committed s))"
  shows "fst (register_store env new_user s) =
           Error_response ''An error occurred during registration'' 500 \<and>
         users (committed (snd (register_store env new_user s))) =
           users (committed s) @ [new_user] \<and>
         user_roles (committed (snd (register_store env new_user s))) =
           user_roles (committed s)"
proof -
  from assms(5) obtain r
    where r: "find (\<lambda>r. Role_name r = ''Client'') (roles (committed s)) = Some r"
    by (cases "find (\<lambda>r. Role_name r = ''Client'') (roles (committed s))")
       (auto simp: find_None_iff list_ex_iff)
  from assms(1-4) r show ?thesis
    by (simp add: register_store_def session_add_def session_commit_def session_rollback_def
        insert_row_def Let_def)
qed

end
